theory Spec2Isabelle
  imports Complex_Main "HOL-Library.Word"
begin

unbundle bit_operations_syntax

section \<open>Numbers\<close>

text \<open>
  Unsigned 32-bit integers (\<^verbatim>\<open>u32\<close>, \<^verbatim>\<open>std::uint32_t\<close>) are 32-bit words: sums, differences
  and products wrap around.

  Single-precision numbers (\<^verbatim>\<open>f32\<close>, \<^verbatim>\<open>float\<close>) are modelled by the real numbers: every
  arithmetic operation is exact, a decimal literal denotes its decimal value, and rounding,
  overflow, signed zeros, infinities and NaN are not part of the model.  Where the program
  divides by a value that can be zero, or applies a function outside the domain on which it
  is finite, and no check in the program excludes that, the model returns the error
  \<open>NonFinite\<close> instead of a number.
\<close>

type_synonym u32 = "32 word"
type_synonym f32 = real

datatype fault = IndexOutOfBounds | StackIndexOutOfBounds | NonFinite

definition bind_res :: "'e + 'a \<Rightarrow> ('a \<Rightarrow> 'e + 'b) \<Rightarrow> 'e + 'b" where
  "bind_res m f = (case m of Inl e \<Rightarrow> Inl e | Inr v \<Rightarrow> f v)"

text \<open>A read of a runtime-sized storage buffer; an index past the end is an error.\<close>

definition buffer_read :: "'a list \<Rightarrow> u32 \<Rightarrow> fault + 'a" where
  "buffer_read buf i = (if unat i < length buf then Inr (buf ! unat i) else Inl IndexOutOfBounds)"




text \<open>
  The single-precision value nearest to \<open>\<pi>\<close>, \<open>3.1415927410125732421875\<close>: the value of
  \<^verbatim>\<open>(float)M_PI\<close> in hw_skymodel.c and of the literal \<^verbatim>\<open>3.1415927f\<close> in the shaders.
\<close>

definition PI :: f32 where
  "PI = 13176795 / 4194304"

definition EPSILON :: f32 where
  "EPSILON = 1 / 100000"

definition DEGREES_TO_RADIANS :: f32 where
  "DEGREES_TO_RADIANS = PI / 180"

definition TERRESTRIAL_SOLAR_RADIUS :: f32 where
  "TERRESTRIAL_SOLAR_RADIUS = (255 / 1000) * DEGREES_TO_RADIANS"

section \<open>Vectors\<close>

datatype vec2f = Vec2f (x2: f32) (y2: f32)
datatype vec3f = Vec3f (x3: f32) (y3: f32) (z3: f32)

instantiation vec3f :: "{plus, minus, times, zero}"
begin

definition plus_vec3f :: "vec3f \<Rightarrow> vec3f \<Rightarrow> vec3f" where
  "plus_vec3f a b = Vec3f (x3 a + x3 b) (y3 a + y3 b) (z3 a + z3 b)"

definition minus_vec3f :: "vec3f \<Rightarrow> vec3f \<Rightarrow> vec3f" where
  "minus_vec3f a b = Vec3f (x3 a - x3 b) (y3 a - y3 b) (z3 a - z3 b)"

definition times_vec3f :: "vec3f \<Rightarrow> vec3f \<Rightarrow> vec3f" where
  "times_vec3f a b = Vec3f (x3 a * x3 b) (y3 a * y3 b) (z3 a * z3 b)"

definition zero_vec3f :: vec3f where
  "zero_vec3f = Vec3f 0 0 0"

instance ..

end

instantiation vec2f :: "{plus, minus}"
begin

definition plus_vec2f :: "vec2f \<Rightarrow> vec2f \<Rightarrow> vec2f" where
  "plus_vec2f a b = Vec2f (x2 a + x2 b) (y2 a + y2 b)"

definition minus_vec2f :: "vec2f \<Rightarrow> vec2f \<Rightarrow> vec2f" where
  "minus_vec2f a b = Vec2f (x2 a - x2 b) (y2 a - y2 b)"

instance ..

end

text \<open>Scalar times vector, \<^verbatim>\<open>dot\<close>, \<^verbatim>\<open>cross\<close>, \<^verbatim>\<open>length\<close> and \<^verbatim>\<open>normalize\<close>.\<close>

definition scale3 :: "f32 \<Rightarrow> vec3f \<Rightarrow> vec3f" where
  "scale3 k a = Vec3f (k * x3 a) (k * y3 a) (k * z3 a)"

definition scale2 :: "f32 \<Rightarrow> vec2f \<Rightarrow> vec2f" where
  "scale2 k a = Vec2f (k * x2 a) (k * y2 a)"

definition dot :: "vec3f \<Rightarrow> vec3f \<Rightarrow> f32" where
  "dot a b = x3 a * x3 b + y3 a * y3 b + z3 a * z3 b"

definition cross :: "vec3f \<Rightarrow> vec3f \<Rightarrow> vec3f" where
  "cross a b = Vec3f (y3 a * z3 b - z3 a * y3 b)
                     (z3 a * x3 b - x3 a * z3 b)
                     (x3 a * y3 b - y3 a * x3 b)"

definition length3 :: "vec3f \<Rightarrow> f32" where
  "length3 a = sqrt (dot a a)"

text \<open>\<^verbatim>\<open>normalize\<close> divides by the length; it is used only where the length is not zero.\<close>

definition normalize :: "vec3f \<Rightarrow> vec3f" where
  "normalize a = scale3 (1 / length3 a) a"

section \<open>Sky model (hw_skymodel.c)\<close>

text \<open>
  \<^verbatim>\<open>SkyParams\<close> and \<^verbatim>\<open>SkyState\<close> are declared in hw_skymodel.h, which is not part of the
  sources at hand; their members are the ones hw_skymodel.c reads and writes: the arrays
  \<^verbatim>\<open>albedo[3]\<close>, \<^verbatim>\<open>params[27]\<close> and \<^verbatim>\<open>radiances[3]\<close> are lists of these lengths.  The
  coefficient tables \<^verbatim>\<open>paramsR\<close>, ..., \<^verbatim>\<open>radiancesB\<close> (params_r.h, ..., radiances_b.h) are
  missing as well and are a parameter of the model; the code reads \<open>2 * 10 * 6 * 9\<close> entries of
  each parameter table and \<open>2 * 10 * 6\<close> entries of each radiance table.
\<close>

record SkyParams =
  elevation :: f32
  turbidity :: f32
  albedo :: "f32 list"

record SkyState =
  params :: "f32 list"
  radiances :: "f32 list"

datatype SkyStateResult =
  SkyStateResult_Success
  | SkyStateResult_ElevationOutOfRange
  | SkyStateResult_TurbidityOutOfRange
  | SkyStateResult_AlbedoOutOfRange

datatype Channel = Channel_R | Channel_G | Channel_B

record SkyTables =
  paramsR :: "f32 list"
  paramsG :: "f32 list"
  paramsB :: "f32 list"
  radiancesR :: "f32 list"
  radiancesG :: "f32 list"
  radiancesB :: "f32 list"

datatype c_abort = AssertFailed

text \<open>
  \<^verbatim>\<open>quintic_9(data, t)\<close> and \<^verbatim>\<open>quintic_1(data, t)\<close>; the pointer \<^verbatim>\<open>data\<close> is a table and an
  offset into it.
\<close>

definition quintic_9 :: "f32 list \<Rightarrow> nat \<Rightarrow> f32 \<Rightarrow> f32" where
  "quintic_9 data off t =
     (let t2 = t * t; t3 = t2 * t; t4 = t2 * t2; t5 = t4 * t;
          inv_t = 1 - t; inv_t2 = inv_t * inv_t; inv_t3 = inv_t2 * inv_t;
          inv_t4 = inv_t2 * inv_t2; inv_t5 = inv_t4 * inv_t;
          m0 = data ! (off + 0) * inv_t5;
          m1 = data ! (off + 9) * 5 * inv_t4 * t;
          m2 = data ! (off + 2 * 9) * 10 * inv_t3 * t2;
          m3 = data ! (off + 3 * 9) * 10 * inv_t2 * t3;
          m4 = data ! (off + 4 * 9) * 5 * inv_t * t4;
          m5 = data ! (off + 5 * 9) * t5
      in m0 + m1 + m2 + m3 + m4 + m5)"

definition quintic_1 :: "f32 list \<Rightarrow> nat \<Rightarrow> f32 \<Rightarrow> f32" where
  "quintic_1 data off t =
     (let t2 = t * t; t3 = t2 * t; t4 = t2 * t2; t5 = t4 * t;
          inv_t = 1 - t; inv_t2 = inv_t * inv_t; inv_t3 = inv_t2 * inv_t;
          inv_t4 = inv_t2 * inv_t2; inv_t5 = inv_t4 * inv_t;
          m0 = data ! (off + 0) * inv_t5;
          m1 = data ! (off + 1) * 5 * inv_t4 * t;
          m2 = data ! (off + 2 * 1) * 10 * inv_t3 * t2;
          m3 = data ! (off + 3 * 1) * 10 * inv_t2 * t3;
          m4 = data ! (off + 4 * 1) * 5 * inv_t * t4;
          m5 = data ! (off + 5 * 1) * t5
      in m0 + m1 + m2 + m3 + m4 + m5)"

text \<open>
  The cast \<^verbatim>\<open>(size_t)turbidity\<close> (truncation; the value is at least 1 where it is used) and
  \<^verbatim>\<open>fmodf(turbidity, 1.0f)\<close> (the remainder has the sign of the dividend).
\<close>

definition size_t_of_float :: "f32 \<Rightarrow> nat" where
  "size_t_of_float v = nat \<lfloor>v\<rfloor>"

definition fmodf1 :: "f32 \<Rightarrow> f32" where
  "fmodf1 v = (if 0 \<le> v then v - of_int \<lfloor>v\<rfloor> else v - of_int \<lceil>v\<rceil>)"

text \<open>
  The loop of \<^verbatim>\<open>initParams\<close> over \<open>i = 0, ..., 8\<close>; \<open>n\<close> counts the iterations that remain.
  \<open>out\<close> is the array into which \<^verbatim>\<open>outParams\<close> points and \<open>outOff\<close> the offset of the pointer.
\<close>

fun initParams_loop ::
  "nat \<Rightarrow> nat \<Rightarrow> f32 list \<Rightarrow> nat \<Rightarrow> f32 list \<Rightarrow> nat \<Rightarrow> nat \<Rightarrow> nat \<Rightarrow> nat
     \<Rightarrow> f32 \<Rightarrow> f32 \<Rightarrow> f32 \<Rightarrow> f32 \<Rightarrow> f32 \<Rightarrow> f32 list" where
  "initParams_loop 0 i out outOff data p0 p1 p2 p3 s0 s1 s2 s3 t = out"
| "initParams_loop (Suc n) i out outOff data p0 p1 p2 p3 s0 s1 s2 s3 t =
     (let out = out[outOff + i := 0];
          out = out[outOff + i := out ! (outOff + i) + s0 * quintic_9 data (p0 + i) t];
          out = out[outOff + i := out ! (outOff + i) + s1 * quintic_9 data (p1 + i) t];
          out = out[outOff + i := out ! (outOff + i) + s2 * quintic_9 data (p2 + i) t];
          out = out[outOff + i := out ! (outOff + i) + s3 * quintic_9 data (p3 + i) t]
      in initParams_loop n (i + 1) out outOff data p0 p1 p2 p3 s0 s1 s2 s3 t)"

definition initParams ::
  "f32 list \<Rightarrow> nat \<Rightarrow> f32 list \<Rightarrow> f32 \<Rightarrow> f32 \<Rightarrow> f32 \<Rightarrow> c_abort + f32 list" where
  "initParams out outOff data turbidity_v albedo_v t =
     (let turbidityInt = size_t_of_float turbidity_v;
          turbidityRem = fmodf1 turbidity_v
      in if \<not> turbidityInt > 0 then Inl AssertFailed
         else
           let turbidityMin = turbidityInt - 1;
               turbidityMax = (if turbidityInt < 9 then turbidityInt else 9);
               p0 = 9 * 6 * turbidityMin;
               p1 = 9 * 6 * turbidityMax;
               p2 = 9 * 6 * 10 + 9 * 6 * turbidityMin;
               p3 = 9 * 6 * 10 + 9 * 6 * turbidityMax;
               s0 = (1 - albedo_v) * (1 - turbidityRem);
               s1 = (1 - albedo_v) * turbidityRem;
               s2 = albedo_v * (1 - turbidityRem);
               s3 = albedo_v * turbidityRem
           in Inr (initParams_loop 9 0 out outOff data p0 p1 p2 p3 s0 s1 s2 s3 t))"

definition initRadiances ::
  "f32 list \<Rightarrow> nat \<Rightarrow> f32 list \<Rightarrow> f32 \<Rightarrow> f32 \<Rightarrow> f32 \<Rightarrow> c_abort + f32 list" where
  "initRadiances out outOff data turbidity_v albedo_v t =
     (let turbidity_int = size_t_of_float turbidity_v;
          turbidity_rem = fmodf1 turbidity_v
      in if \<not> turbidity_int > 0 then Inl AssertFailed
         else
           let turbidity_min = turbidity_int - 1;
               turbidity_max = (if turbidity_int < 9 then turbidity_int else 9);
               p0 = 6 * turbidity_min;
               p1 = 6 * turbidity_max;
               p2 = 6 * 10 + 6 * turbidity_min;
               p3 = 6 * 10 + 6 * turbidity_max;
               s0 = (1 - albedo_v) * (1 - turbidity_rem);
               s1 = (1 - albedo_v) * turbidity_rem;
               s2 = albedo_v * (1 - turbidity_rem);
               s3 = albedo_v * turbidity_rem;
               out = out[outOff := 0];
               out = out[outOff := out ! outOff + s0 * quintic_1 data p0 t];
               out = out[outOff := out ! outOff + s1 * quintic_1 data p1 t];
               out = out[outOff := out ! outOff + s2 * quintic_1 data p2 t];
               out = out[outOff := out ! outOff + s3 * quintic_1 data p3 t]
           in Inr out)"

text \<open>
  \<^verbatim>\<open>skyStateNew(skyParams, skyState)\<close> returns its result code together with the
  \<^verbatim>\<open>SkyState\<close> object as the call leaves it.  The base of \<^verbatim>\<open>powf\<close> is not negative after the
  validation.
\<close>

definition skyStateNew ::
  "SkyTables \<Rightarrow> SkyParams \<Rightarrow> SkyState \<Rightarrow> c_abort + (SkyStateResult \<times> SkyState)" where
  "skyStateNew tables skyParams skyState =
     (let elevation_v = elevation skyParams;
          turbidity_v = turbidity skyParams;
          albedo_v = [albedo skyParams ! 0, albedo skyParams ! 1, albedo skyParams ! 2]
      in if elevation_v < 0 \<or> elevation_v > PI
           then Inr (SkyStateResult_ElevationOutOfRange, skyState)
         else if turbidity_v < 1 \<or> turbidity_v > 10
           then Inr (SkyStateResult_TurbidityOutOfRange, skyState)
         else if (albedo_v ! 0 < 0 \<or> albedo_v ! 0 > 1) \<or> (albedo_v ! 1 < 0 \<or> albedo_v ! 1 > 1)
                 \<or> (albedo_v ! 2 < 0 \<or> albedo_v ! 2 > 1)
           then Inr (SkyStateResult_AlbedoOutOfRange, skyState)
         else
           let t = (elevation_v / (0.5 * PI)) powr (1 / 3) in
           bind_res (initParams (params skyState) 0 (paramsR tables) turbidity_v (albedo_v ! 0) t) (\<lambda>ps.
           bind_res (initParams ps 9 (paramsG tables) turbidity_v (albedo_v ! 1) t) (\<lambda>ps.
           bind_res (initParams ps (9 * 2) (paramsB tables) turbidity_v (albedo_v ! 2) t) (\<lambda>ps.
           bind_res (initRadiances (radiances skyState) 0 (radiancesR tables) turbidity_v (albedo_v ! 0) t) (\<lambda>rs.
           bind_res (initRadiances rs 1 (radiancesG tables) turbidity_v (albedo_v ! 1) t) (\<lambda>rs.
           bind_res (initRadiances rs 2 (radiancesB tables) turbidity_v (albedo_v ! 2) t) (\<lambda>rs.
           Inr (SkyStateResult_Success, skyState \<lparr> params := ps, radiances := rs \<rparr>))))))))"

text \<open>
  The closed form shared by the two radiance functions, as the spec words it: the product of
  \<open>1 + p0 * exp (p1 / (cos \<theta> + 0.01))\<close> and the sum of the constant, the exponential, the
  Rayleigh, the Mie and the zenith term, driven by the nine coefficients \<open>p 0, ..., p 8\<close> of a channel.  This is the
  reference against which both functions are compared.
\<close>

definition radiance_distribution :: "(nat \<Rightarrow> f32) \<Rightarrow> f32 \<Rightarrow> f32 \<Rightarrow> f32" where
  "radiance_distribution p theta gamma =
     (1 + p 0 * exp (p 1 / (\<bar>cos theta\<bar> + 0.01)))
     * (p 2 + p 3 * exp (p 4 * gamma) + p 5 * (cos gamma * cos gamma)
        + p 6 * ((1 + cos gamma * cos gamma) / (1 + p 8 * p 8 - 2 * p 8 * cos gamma) powr 1.5)
        + p 7 * sqrt \<bar>cos theta\<bar>)"

text \<open>
  \<^verbatim>\<open>pow(x, 1.5)\<close> for the Mie term: the model covers a positive base, where the power is
  finite and not zero, so that the quotient is finite.
\<close>

definition mie_denominator :: "f32 \<Rightarrow> f32 \<Rightarrow> fault + f32" where
  "mie_denominator p8 cosGamma =
     (let base = 1 + p8 * p8 - 2 * p8 * cosGamma
      in if base \<le> 0 then Inl NonFinite else Inr (base powr 1.5))"

definition channel_index :: "Channel \<Rightarrow> nat" where
  "channel_index c = (case c of Channel_R \<Rightarrow> 0 | Channel_G \<Rightarrow> 1 | Channel_B \<Rightarrow> 2)"

definition skyStateRadiance :: "SkyState \<Rightarrow> f32 \<Rightarrow> f32 \<Rightarrow> Channel \<Rightarrow> fault + f32" where
  "skyStateRadiance skyState theta gamma channel =
     (let channelIdx = channel_index channel;
          r = radiances skyState ! channelIdx;
          p = (\<lambda>k. params skyState ! (9 * channelIdx + k));
          p0 = p 0; p1 = p 1; p2 = p 2; p3 = p 3; p4 = p 4; p5 = p 5; p6 = p 6; p7 = p 7; p8 = p 8;
          cosGamma = cos gamma;
          cosGamma2 = cosGamma * cosGamma;
          cos_theta = \<bar>cos theta\<bar>;
          expM = exp (p4 * gamma);
          rayM = cosGamma2;
          mieMLhs = 1 + cosGamma2
      in bind_res (mie_denominator p8 cosGamma) (\<lambda>mieMRhs.
           let mieM = mieMLhs / mieMRhs;
               zenith = sqrt cos_theta;
               radiance_lhs = 1 + p0 * exp (p1 / (cos_theta + 0.01));
               radiance_rhs = p2 + p3 * expM + p5 * rayM + p6 * mieM + p7 * zenith;
               radiance_dist = radiance_lhs * radiance_rhs
           in Inr (r * radiance_dist)))"

section \<open>Sky radiance in the shader (deferred lighting pass)\<close>

text \<open>The uniform \<^verbatim>\<open>SkyState\<close> of the shader; its arrays have 27, 3 and 3 elements.\<close>

record SkyState_wgsl =
  params_wgsl :: "f32 list"
  skyRadiances :: "f32 list"
  solarRadiances :: "f32 list"
  sunDirection :: vec3f

definition CHANNEL_R :: u32 where "CHANNEL_R = 0"

text \<open>A read of a fixed-size array at a computed index.\<close>

definition array_read :: "'a list \<Rightarrow> u32 \<Rightarrow> fault + 'a" where
  "array_read arr i = (if unat i < length arr then Inr (arr ! unat i) else Inl IndexOutOfBounds)"

definition skyRadiance :: "SkyState_wgsl \<Rightarrow> f32 \<Rightarrow> f32 \<Rightarrow> u32 \<Rightarrow> fault + f32" where
  "skyRadiance skyState theta gamma channel =
     bind_res (array_read (skyRadiances skyState) channel) (\<lambda>r.
     let idx = 9 * channel in
     bind_res (array_read (params_wgsl skyState) (idx + 0)) (\<lambda>p0.
     bind_res (array_read (params_wgsl skyState) (idx + 1)) (\<lambda>p1.
     bind_res (array_read (params_wgsl skyState) (idx + 2)) (\<lambda>p2.
     bind_res (array_read (params_wgsl skyState) (idx + 3)) (\<lambda>p3.
     bind_res (array_read (params_wgsl skyState) (idx + 4)) (\<lambda>p4.
     bind_res (array_read (params_wgsl skyState) (idx + 5)) (\<lambda>p5.
     bind_res (array_read (params_wgsl skyState) (idx + 6)) (\<lambda>p6.
     bind_res (array_read (params_wgsl skyState) (idx + 7)) (\<lambda>p7.
     bind_res (array_read (params_wgsl skyState) (idx + 8)) (\<lambda>p8.
     let cosGamma = cos gamma;
         cosGamma2 = cosGamma * cosGamma;
         cosTheta = \<bar>cos theta\<bar>;
         expM = exp (p4 * gamma);
         rayM = cosGamma2;
         mieMLhs = 1 + cosGamma2
     in bind_res (mie_denominator p8 cosGamma) (\<lambda>mieMRhs.
     let mieM = mieMLhs / mieMRhs;
         zenith = sqrt cosTheta;
         radianceLhs = 1 + p0 * exp (p1 / (cosTheta + 0.01));
         radianceRhs = p2 + p3 * expM + p5 * rayM + p6 * mieM + p7 * zenith;
         radianceDist = radianceLhs * radianceRhs;
         solarDiskRadius = gamma / TERRESTRIAL_SOLAR_RADIUS
     in bind_res (array_read (solarRadiances skyState) channel) (\<lambda>solar.
     let solarRadiance = (if solarDiskRadius \<le> 1 then solar else 0)
     in Inr (r * radianceDist + solarRadiance)))))))))))))"

section \<open>Texture lookup\<close>

record TextureDescriptor =
  width :: u32
  height :: u32
  offset :: u32



definition decode_component :: "u32 \<Rightarrow> f32" where
  "decode_component c = (real (unat c) / 255) powr 2.2"

section \<open>Rays and triangles\<close>

record Ray =
  origin :: vec3f
  direction :: vec3f

record Positions =
  p0 :: vec3f
  p1 :: vec3f
  p2 :: vec3f

text \<open>\<^verbatim>\<open>TriangleHit\<close> has the members \<^verbatim>\<open>p\<close>, \<^verbatim>\<open>b\<close> and \<^verbatim>\<open>t\<close>.\<close>

record TriangleHit =
  hit_p :: vec3f
  hit_b :: vec3f
  hit_t :: f32

definition ORIGIN :: f32 where
  "ORIGIN = 1 / 32"

definition FLOAT_SCALE :: f32 where
  "FLOAT_SCALE = 1 / 16384"

definition INT_SCALE :: f32 where
  "INT_SCALE = 1024"

text \<open>The value conversion \<^verbatim>\<open>i32(e)\<close> of a float: truncation towards zero, clamped.\<close>

definition i32_of_f32 :: "f32 \<Rightarrow> int" where
  "i32_of_f32 v = max (- (2 ^ 31)) (min (2 ^ 31 - 1) (if 0 \<le> v then \<lfloor>v\<rfloor> else \<lceil>v\<rceil>))"

text \<open>
  \<^verbatim>\<open>offsetPosition(p, n)\<close>.  The expression
  \<^verbatim>\<open>bitcast<f32>(bitcast<i32>(x) + k)\<close> works on the bit pattern of a float, which real
  numbers do not have: it is the parameter \<open>nudge x k\<close> of the model, about which nothing is
  assumed.
\<close>

definition offsetPosition :: "(f32 \<Rightarrow> int \<Rightarrow> f32) \<Rightarrow> vec3f \<Rightarrow> vec3f \<Rightarrow> vec3f" where
  "offsetPosition nudge p n =
     (let offset_x = i32_of_f32 (INT_SCALE * x3 n);
          offset_y = i32_of_f32 (INT_SCALE * y3 n);
          offset_z = i32_of_f32 (INT_SCALE * z3 n);
          po = Vec3f (nudge (x3 p) (if x3 p < 0 then - offset_x else offset_x))
                     (nudge (y3 p) (if y3 p < 0 then - offset_y else offset_y))
                     (nudge (z3 p) (if z3 p < 0 then - offset_z else offset_z))
      in Vec3f (if \<bar>x3 p\<bar> < ORIGIN then x3 p + FLOAT_SCALE * x3 n else x3 po)
               (if \<bar>y3 p\<bar> < ORIGIN then y3 p + FLOAT_SCALE * y3 n else y3 po)
               (if \<bar>z3 p\<bar> < ORIGIN then z3 p + FLOAT_SCALE * z3 n else z3 po))"

text \<open>
  \<^verbatim>\<open>rayIntersectTriangle(ray, tri, tmax, hit)\<close> of the deferred lighting pass: \<open>None\<close> is the
  result \<^verbatim>\<open>false\<close> (nothing is written to \<^verbatim>\<open>hit\<close>), \<open>Some h\<close> is \<^verbatim>\<open>true\<close> with \<open>h\<close> written
  to \<^verbatim>\<open>hit\<close>.  The divisor \<open>det\<close> is not zero past the first test, and then \<open>cross e1 e2\<close> is
  not the zero vector.
\<close>

definition rayIntersectTriangle ::
  "(f32 \<Rightarrow> int \<Rightarrow> f32) \<Rightarrow> Ray \<Rightarrow> Positions \<Rightarrow> f32 \<Rightarrow> TriangleHit option" where
  "rayIntersectTriangle nudge ray tri tmax =
     (let e1 = p1 tri - p0 tri;
          e2 = p2 tri - p0 tri;
          h = cross (direction ray) e2;
          det = dot e1 h
      in if det > - EPSILON \<and> det < EPSILON then None
         else
           let invDet = 1 / det;
               s = origin ray - p0 tri;
               u = invDet * dot s h
           in if u < 0 \<or> u > 1 then None
              else
                let q = cross s e1;
                    v = invDet * dot (direction ray) q
                in if v < 0 \<or> u + v > 1 then None
                   else
                     let t = invDet * dot e2 q
                     in if t > EPSILON \<and> t < tmax
                        then
                          let p = p0 tri + scale3 u e1 + scale3 v e2;
                              n = normalize (cross e1 e2);
                              b = Vec3f (1 - u - v) u v
                          in Some \<lparr> hit_p = offsetPosition nudge p n, hit_b = b, hit_t = t \<rparr>
                        else None)"





section \<open>Bounding boxes\<close>

text \<open>\<^verbatim>\<open>Aabb\<close> has the members \<^verbatim>\<open>min\<close> and \<^verbatim>\<open>max\<close>.\<close>

record Aabb =
  aabb_min :: vec3f
  aabb_max :: vec3f

datatype vec3u = Vec3u u32 u32 u32

text \<open>A \<^verbatim>\<open>vec3u\<close> indexed by a computed index.\<close>

definition vec3u_index :: "vec3u \<Rightarrow> u32 \<Rightarrow> fault + u32" where
  "vec3u_index v i =
     (case v of Vec3u a b c \<Rightarrow>
        if i = 0 then Inr a else if i = 1 then Inr b else if i = 2 then Inr c
        else Inl IndexOutOfBounds)"

text \<open>\<^verbatim>\<open>RayAabbIntersector\<close> has the members \<^verbatim>\<open>origin\<close>, \<^verbatim>\<open>invDir\<close> and \<^verbatim>\<open>dirNeg\<close>.\<close>

record RayAabbIntersector =
  ri_origin :: vec3f
  invDir :: vec3f
  dirNeg :: vec3u


text \<open>The two-element array \<^verbatim>\<open>bounds\<close> of \<^verbatim>\<open>rayIntersectAabb\<close>, indexed by a computed index.\<close>

definition bounds_index :: "Aabb \<Rightarrow> u32 \<Rightarrow> fault + vec3f" where
  "bounds_index box i =
     (if i = 0 then Inr (aabb_min box) else if i = 1 then Inr (aabb_max box)
      else Inl IndexOutOfBounds)"

definition rayIntersectAabb :: "RayAabbIntersector \<Rightarrow> Aabb \<Rightarrow> f32 \<Rightarrow> fault + bool" where
  "rayIntersectAabb intersector box rayTMax =
     (case dirNeg intersector of Vec3u dirNeg0 dirNeg1 dirNeg2 \<Rightarrow>
      bind_res (bounds_index box dirNeg0) (\<lambda>b0.
      bind_res (bounds_index box (1 - dirNeg0)) (\<lambda>b1.
      let tmin = (x3 b0 - x3 (ri_origin intersector)) * x3 (invDir intersector);
          tmax = (x3 b1 - x3 (ri_origin intersector)) * x3 (invDir intersector)
      in
      bind_res (bounds_index box dirNeg1) (\<lambda>b2.
      bind_res (bounds_index box (1 - dirNeg1)) (\<lambda>b3.
      let tymin = (y3 b2 - y3 (ri_origin intersector)) * y3 (invDir intersector);
          tymax = (y3 b3 - y3 (ri_origin intersector)) * y3 (invDir intersector)
      in
      if tmin > tymax \<or> tymin > tmax then Inr False
      else
        let tmin = max tymin tmin;
            tmax = min tymax tmax
        in
        bind_res (bounds_index box dirNeg2) (\<lambda>b4.
        bind_res (bounds_index box (1 - dirNeg2)) (\<lambda>b5.
        let tzmin = (z3 b4 - z3 (ri_origin intersector)) * z3 (invDir intersector);
            tzmax = (z3 b5 - z3 (ri_origin intersector)) * z3 (invDir intersector)
        in
        if tmin > tzmax \<or> tzmin > tmax then Inr False
        else
          let tmin = max tzmin tmin;
              tmax = min tzmax tmax
          in Inr (tmin < rayTMax \<and> tmax > 0))))))))"

section \<open>BVH traversal\<close>

record BvhNode =
  aabb :: Aabb
  trianglesOffset :: u32
  secondChildOffset :: u32
  triangleCount :: u32
  splitAxis :: u32

text \<open>
  The three variables that navigate the tree: \<^verbatim>\<open>toVisitOffset\<close>, \<^verbatim>\<open>currentNodeIdx\<close> and
  the array \<^verbatim>\<open>nodesToVisit\<close> of 32 elements.  The closest-hit query has, in addition,
  \<^verbatim>\<open>didIntersect\<close>, \<^verbatim>\<open>tmax\<close> and the object behind the pointer \<^verbatim>\<open>hit\<close>.
\<close>

record cursor =
  toVisitOffset :: u32
  currentNodeIdx :: u32
  nodesToVisit :: "u32 list"

record 'h closest_state = cursor +
  st_didIntersect :: bool
  st_tmax :: f32
  st_hit :: 'h

text \<open>A read and a write of \<^verbatim>\<open>nodesToVisit\<close> at a computed index.\<close>

definition stack_read :: "u32 list \<Rightarrow> u32 \<Rightarrow> fault + u32" where
  "stack_read arr i =
     (if unat i < length arr then Inr (arr ! unat i) else Inl StackIndexOutOfBounds)"

definition stack_write :: "u32 list \<Rightarrow> u32 \<Rightarrow> u32 \<Rightarrow> fault + u32 list" where
  "stack_write arr i v =
     (if unat i < length arr then Inr (arr[unat i := v]) else Inl StackIndexOutOfBounds)"

text \<open>
  The block that both loops run after a leaf and after a missed box:
  \<^verbatim>\<open>if toVisitOffset == 0u { break; } toVisitOffset -= 1u; currentNodeIdx =
  nodesToVisit[toVisitOffset];\<close>  The result \<open>None\<close> is the \<^verbatim>\<open>break\<close>.
\<close>

definition pop_node :: "'a cursor_scheme \<Rightarrow> fault + 'a cursor_scheme option" where
  "pop_node s =
     (if toVisitOffset s = 0 then Inr None
      else
        let off = toVisitOffset s - 1
        in bind_res (stack_read (nodesToVisit s) off) (\<lambda>i.
             Inr (Some (s \<lparr> toVisitOffset := off, currentNodeIdx := i \<rparr>))))"

text \<open>
  The block that both loops run at an interior node: the far child is stored in
  \<^verbatim>\<open>nodesToVisit\<close>, the near child becomes the current node, \<^verbatim>\<open>toVisitOffset\<close> grows by one.
\<close>

definition push_children :: "vec3u \<Rightarrow> BvhNode \<Rightarrow> 'a cursor_scheme \<Rightarrow> fault + 'a cursor_scheme" where
  "push_children dn node s =
     bind_res (vec3u_index dn (splitAxis node)) (\<lambda>d.
       if d = 1
       then bind_res (stack_write (nodesToVisit s) (toVisitOffset s) (currentNodeIdx s + 1)) (\<lambda>arr.
              Inr (s \<lparr> nodesToVisit := arr, currentNodeIdx := secondChildOffset node,
                       toVisitOffset := toVisitOffset s + 1 \<rparr>))
       else bind_res (stack_write (nodesToVisit s) (toVisitOffset s) (secondChildOffset node)) (\<lambda>arr.
              Inr (s \<lparr> nodesToVisit := arr, currentNodeIdx := currentNodeIdx s + 1,
                       toVisitOffset := toVisitOffset s + 1 \<rparr>)))"

text \<open>A loop index below a 32-bit bound can be incremented without wrapping.\<close>

lemma word_succ_less:
  assumes "(i::u32) < n"
  shows "unat (i + 1) = unat i + 1 \<and> unat i < unat n"
proof -
  have a: "unat i < unat n" using assms by (simp add: word_less_nat_alt)
  have "unat n < 2 ^ 32" using unsigned_less[of n, where 'a=nat] by simp
  with a have "unat i + 1 < 2 ^ 32" by simp
  then have "unat (i + 1) = unat i + 1" by (simp add: unat_word_ariths)
  with a show ?thesis by simp
qed

text \<open>
  The \<^verbatim>\<open>for\<close> loop over the triangles of a leaf in the closest-hit query.  \<open>triT i tm\<close> is the
  body's test of triangle \<open>i\<close> against the current \<^verbatim>\<open>tmax\<close>: it yields the new contents of
  \<^verbatim>\<open>hit\<close> and the distance \<open>t\<close> of the hit, or \<open>None\<close>.
\<close>

function closest_triangles ::
  "(u32 \<Rightarrow> f32 \<Rightarrow> fault + ('h \<times> f32) option) \<Rightarrow> BvhNode \<Rightarrow> u32 \<Rightarrow> 'h closest_state
     \<Rightarrow> fault + 'h closest_state" where
  "closest_triangles triT node idx s =
     (if idx < triangleCount node
      then (case triT (trianglesOffset node + idx) (st_tmax s) of
              Inl e \<Rightarrow> Inl e
            | Inr None \<Rightarrow> closest_triangles triT node (idx + 1) s
            | Inr (Some (h, t)) \<Rightarrow>
                closest_triangles triT node (idx + 1)
                  (s \<lparr> st_tmax := t, st_didIntersect := True, st_hit := h \<rparr>))
      else Inr s)"
  by pat_completeness auto
termination
proof (relation "measure (\<lambda>(triT, node, idx, s). unat (triangleCount node) - unat idx)")
  show "wf (measure (\<lambda>(triT, node, idx, s). unat (triangleCount node) - unat idx))"
    by simp
next
  fix triT :: "u32 \<Rightarrow> f32 \<Rightarrow> fault + ('h \<times> f32) option"
    and node :: BvhNode and idx :: u32 and s :: "'h closest_state"
  assume "idx < triangleCount node"
  then have "unat (idx + 1) = unat idx + 1 \<and> unat idx < unat (triangleCount node)"
    by (rule word_succ_less)
  then have m: "unat (triangleCount node) - unat (idx + 1) < unat (triangleCount node) - unat idx"
    by linarith
  then show "((triT, node, idx + 1, s), triT, node, idx, s)
      \<in> measure (\<lambda>(triT, node, idx, s). unat (triangleCount node) - unat idx)"
    by simp
  from m show "\<And>x2 x y. ((triT, node, idx + 1, s\<lparr>st_tmax := y, st_didIntersect := True, st_hit := x\<rparr>),
        triT, node, idx, s)
      \<in> measure (\<lambda>(triT, node, idx, s). unat (triangleCount node) - unat idx)"
    by simp
qed

declare closest_triangles.simps [simp del]

text \<open>
  One iteration of the \<^verbatim>\<open>loop\<close> of \<^verbatim>\<open>rayIntersectBvh\<close>: \<open>Inl s'\<close> continues with the state
  \<open>s'\<close>, \<open>Inr r\<close> is the \<^verbatim>\<open>break\<close> followed by the \<^verbatim>\<open>return\<close>.  \<open>boxT\<close> is
  \<^verbatim>\<open>rayIntersectAabb(intersector, _, _)\<close> and \<open>dn\<close> is \<^verbatim>\<open>intersector.dirNeg\<close>.
\<close>

definition rayIntersectBvh_step ::
  "(Aabb \<Rightarrow> f32 \<Rightarrow> fault + bool) \<Rightarrow> (u32 \<Rightarrow> f32 \<Rightarrow> fault + ('h \<times> f32) option) \<Rightarrow> vec3u
     \<Rightarrow> BvhNode list \<Rightarrow> 'h closest_state \<Rightarrow> fault + ('h closest_state + bool \<times> 'h)" where
  "rayIntersectBvh_step boxT triT dn nodes s =
     bind_res (buffer_read nodes (currentNodeIdx s)) (\<lambda>node.
     bind_res (boxT (aabb node) (st_tmax s)) (\<lambda>inside.
       if inside then
         if triangleCount node > 0 then
           bind_res (closest_triangles triT node 0 s) (\<lambda>s.
           bind_res (pop_node s) (\<lambda>next.
             case next of None \<Rightarrow> Inr (Inr (st_didIntersect s, st_hit s))
             | Some s' \<Rightarrow> Inr (Inl s')))
         else
           bind_res (push_children dn node s) (\<lambda>s'. Inr (Inl s'))
       else
         bind_res (pop_node s) (\<lambda>next.
           case next of None \<Rightarrow> Inr (Inr (st_didIntersect s, st_hit s))
           | Some s' \<Rightarrow> Inr (Inl s'))))"


text \<open>
  The \<^verbatim>\<open>for\<close> loop over the triangles of a leaf in \<^verbatim>\<open>shadowRay\<close>: \<open>True\<close> when a triangle is hit
  (the function then returns \<^verbatim>\<open>0f\<close>).  \<open>occT i\<close> is the test of triangle \<open>i\<close> against \<^verbatim>\<open>rayTMax\<close>.
\<close>

function shadow_triangles :: "(u32 \<Rightarrow> fault + bool) \<Rightarrow> BvhNode \<Rightarrow> u32 \<Rightarrow> fault + bool" where
  "shadow_triangles occT node idx =
     (if idx < triangleCount node
      then (case occT (trianglesOffset node + idx) of
              Inl e \<Rightarrow> Inl e
            | Inr True \<Rightarrow> Inr True
            | Inr False \<Rightarrow> shadow_triangles occT node (idx + 1))
      else Inr False)"
  by pat_completeness auto
termination
proof (relation "measure (\<lambda>(occT, node, idx). unat (triangleCount node) - unat idx)")
  show "wf (measure (\<lambda>(occT, node, idx). unat (triangleCount node) - unat idx))"
    by simp
next
  fix occT :: "u32 \<Rightarrow> fault + bool" and node :: BvhNode and idx :: u32
  assume "idx < triangleCount node"
  then have "unat (idx + 1) = unat idx + 1 \<and> unat idx < unat (triangleCount node)"
    by (rule word_succ_less)
  then have "unat (triangleCount node) - unat (idx + 1) < unat (triangleCount node) - unat idx"
    by linarith
  then show "((occT, node, idx + 1), occT, node, idx)
      \<in> measure (\<lambda>(occT, node, idx). unat (triangleCount node) - unat idx)"
    by simp
qed

declare shadow_triangles.simps [simp del]

definition shadowRay_step ::
  "(Aabb \<Rightarrow> fault + bool) \<Rightarrow> (u32 \<Rightarrow> fault + bool) \<Rightarrow> vec3u \<Rightarrow> BvhNode list \<Rightarrow> cursor
     \<Rightarrow> fault + (cursor + f32)" where
  "shadowRay_step boxT occT dn nodes s =
     bind_res (buffer_read nodes (currentNodeIdx s)) (\<lambda>node.
     bind_res (boxT (aabb node)) (\<lambda>inside.
       if inside then
         if triangleCount node > 0 then
           bind_res (shadow_triangles occT node 0) (\<lambda>occluded.
             if occluded then Inr (Inr 0)
             else
               bind_res (pop_node s) (\<lambda>next.
                 case next of None \<Rightarrow> Inr (Inr 1) | Some s' \<Rightarrow> Inr (Inl s')))
         else
           bind_res (push_children dn node s) (\<lambda>s'. Inr (Inl s'))
       else
         bind_res (pop_node s) (\<lambda>next.
           case next of None \<Rightarrow> Inr (Inr 1) | Some s' \<Rightarrow> Inr (Inl s'))))"


text \<open>The states that a loop passes through, for a step function and an initial state.\<close>

inductive reachable :: "('s \<Rightarrow> fault + ('s + 'r)) \<Rightarrow> 's \<Rightarrow> 's \<Rightarrow> bool"
  for step :: "'s \<Rightarrow> fault + ('s + 'r)" and s0 :: 's where
  reachable_init: "reachable step s0 s0"
| reachable_step: "reachable step s0 s \<Longrightarrow> step s = Inr (Inl s') \<Longrightarrow> reachable step s0 s'"

section \<open>The scene buffers and the two queries of the deferred lighting pass\<close>

record VertexAttributes =
  n0 :: vec3f
  n1 :: vec3f
  n2 :: vec3f
  uv0 :: vec2f
  uv1 :: vec2f
  uv2 :: vec2f
  textureDescriptorIdx :: u32

text \<open>\<^verbatim>\<open>Intersection\<close> has the members \<^verbatim>\<open>p\<close>, \<^verbatim>\<open>n\<close>, \<^verbatim>\<open>uv\<close> and \<^verbatim>\<open>textureDescriptorIdx\<close>.\<close>

record Intersection =
  isect_p :: vec3f
  isect_n :: vec3f
  isect_uv :: vec2f
  isect_textureDescriptorIdx :: u32

record BlueNoise =
  bn_width :: u32
  bn_height :: u32
  bn_data :: "vec2f list"

text \<open>The storage buffers and uniforms that the functions of the pass read.\<close>

record Bindings =
  frameCount :: u32
  skyState :: SkyState_wgsl
  bvhNodes :: "BvhNode list"
  positionAttributes :: "Positions list"
  vertexAttributes :: "VertexAttributes list"
  textureDescriptors :: "TextureDescriptor list"
  textures :: "u32 list"
  blueNoise :: BlueNoise

definition T_MIN :: f32 where
  "T_MIN = 1 / 1000"

definition T_MAX :: f32 where
  "T_MAX = 10000"

text \<open>
  The body of the triangle loop of \<^verbatim>\<open>rayIntersectBvh\<close>: the triangle is read, tested, and on
  a hit the vertex attributes are read and interpolated into the new \<^verbatim>\<open>Intersection\<close>.
\<close>

definition closest_triangle ::
  "(f32 \<Rightarrow> int \<Rightarrow> f32) \<Rightarrow> Bindings \<Rightarrow> Ray \<Rightarrow> u32 \<Rightarrow> f32 \<Rightarrow> fault + (Intersection \<times> f32) option" where
  "closest_triangle nudge g ray triangleIdx tmax =
     bind_res (buffer_read (positionAttributes g) triangleIdx) (\<lambda>triangle.
       case rayIntersectTriangle nudge ray triangle tmax of
         None \<Rightarrow> Inr None
       | Some trihit \<Rightarrow>
           let b = hit_b trihit in
           bind_res (buffer_read (vertexAttributes g) triangleIdx) (\<lambda>vert.
             let p = hit_p trihit;
                 n = scale3 (x3 b) (n0 vert) + scale3 (y3 b) (n1 vert) + scale3 (z3 b) (n2 vert);
                 uv = scale2 (x3 b) (uv0 vert) + scale2 (y3 b) (uv1 vert) + scale2 (z3 b) (uv2 vert)
             in
             bind_res (buffer_read (vertexAttributes g) triangleIdx) (\<lambda>vert'.
               let textureDescriptorIdx' = textureDescriptorIdx vert'
               in Inr (Some (\<lparr> isect_p = p, isect_n = n, isect_uv = uv,
                                isect_textureDescriptorIdx = textureDescriptorIdx' \<rparr>,
                             hit_t trihit)))))"


text \<open>The body of the triangle loop of \<^verbatim>\<open>shadowRay\<close>.\<close>

definition shadow_triangle ::
  "(f32 \<Rightarrow> int \<Rightarrow> f32) \<Rightarrow> Bindings \<Rightarrow> Ray \<Rightarrow> f32 \<Rightarrow> u32 \<Rightarrow> fault + bool" where
  "shadow_triangle nudge g ray rayTMax triangleIdx =
     bind_res (buffer_read (positionAttributes g) triangleIdx) (\<lambda>triangle.
       case rayIntersectTriangle nudge ray triangle rayTMax of
         None \<Rightarrow> Inr False
       | Some trihit \<Rightarrow> Inr True)"


section \<open>The multi-bounce integrator of the deferred lighting pass\<close>



























section \<open>Well-formed flattened hierarchies\<close>

text \<open>
  The shape of a hierarchy.  \<open>bvh_at nodes i t\<close> says that the nodes reachable from index \<open>i\<close>
  form a tree of shape \<open>t\<close>: a node with triangles is a leaf; any other node is an interior
  node whose first child is the next node of the array and whose second child is at
  \<^verbatim>\<open>secondChildOffset\<close>.  All indices are inside the array.
\<close>

datatype bvh_shape = Leaf | Interior bvh_shape bvh_shape

inductive bvh_at :: "BvhNode list \<Rightarrow> u32 \<Rightarrow> bvh_shape \<Rightarrow> bool" for nodes :: "BvhNode list" where
  bvh_leaf: "unat i < length nodes \<Longrightarrow> triangleCount (nodes ! unat i) > 0 \<Longrightarrow> bvh_at nodes i Leaf"
| bvh_interior:
    "unat i < length nodes \<Longrightarrow> \<not> triangleCount (nodes ! unat i) > 0
     \<Longrightarrow> bvh_at nodes (i + 1) l
     \<Longrightarrow> bvh_at nodes (secondChildOffset (nodes ! unat i)) r
     \<Longrightarrow> bvh_at nodes i (Interior l r)"

text \<open>
  The interior-node depth: the largest number of interior nodes on a path from the root to
  a leaf.
\<close>

fun interior_depth :: "bvh_shape \<Rightarrow> nat" where
  "interior_depth Leaf = 0"
| "interior_depth (Interior l r) = 1 + max (interior_depth l) (interior_depth r)"

text \<open>
  The invariant of the navigation variables: shapes \<open>t\<close> for the current node and \<open>ts ! k\<close> for
  the node stored at \<open>nodesToVisit[k]\<close>, such that each of these subtrees, once the traversal
  turns to it, fits in what is left of the array.
\<close>

definition cursor_rel :: "BvhNode list \<Rightarrow> 'a cursor_scheme \<Rightarrow> bvh_shape \<Rightarrow> bvh_shape list \<Rightarrow> bool" where
  "cursor_rel nodes s t ts \<longleftrightarrow>
     length (nodesToVisit s) = 32
     \<and> unat (toVisitOffset s) = length ts
     \<and> bvh_at nodes (currentNodeIdx s) t
     \<and> interior_depth t + length ts \<le> 32
     \<and> (\<forall>k < length ts. bvh_at nodes (nodesToVisit s ! k) (ts ! k)
                         \<and> interior_depth (ts ! k) + k \<le> 32)"

definition cursor_inv :: "BvhNode list \<Rightarrow> 'a cursor_scheme \<Rightarrow> bool" where
  "cursor_inv nodes s \<longleftrightarrow> (\<exists>t ts. cursor_rel nodes s t ts)"

text \<open>
  What the traversal needs of the stack in a state: \<^verbatim>\<open>toVisitOffset\<close> is at most 32, the
  read \<^verbatim>\<open>nodesToVisit[toVisitOffset]\<close> that follows \<^verbatim>\<open>toVisitOffset -= 1u\<close> is inside the
  array, and at a node without triangles the write \<^verbatim>\<open>nodesToVisit[toVisitOffset] = _\<close> is
  inside the array.
\<close>

definition stack_in_bounds :: "BvhNode list \<Rightarrow> 'a cursor_scheme \<Rightarrow> bool" where
  "stack_in_bounds nodes s \<longleftrightarrow>
     unat (toVisitOffset s) \<le> 32
     \<and> length (nodesToVisit s) = 32
     \<and> (toVisitOffset s \<noteq> 0 \<longrightarrow>
          (\<exists>i. stack_read (nodesToVisit s) (toVisitOffset s - 1) = Inr i))
     \<and> (\<not> triangleCount (nodes ! unat (currentNodeIdx s)) > 0 \<longrightarrow>
          (\<forall>v. \<exists>arr. stack_write (nodesToVisit s) (toVisitOffset s) v = Inr arr))"
















text \<open>
  A stand-in for the bit-level step where a concrete function is needed to evaluate the
  model: \<open>k\<close> relative steps of \<open>2^-23\<close>.
\<close>

definition example_nudge :: "f32 \<Rightarrow> int \<Rightarrow> f32" where
  "example_nudge v k = v * (1 + real_of_int k / 2 ^ 23)"





text \<open>Concrete sky states and a texture used to evaluate the functions.\<close>

definition sky_inputs_valid :: "SkyParams \<Rightarrow> bool" where
  "sky_inputs_valid p \<longleftrightarrow>
     0 \<le> elevation p \<and> elevation p \<le> PI \<and> 1 \<le> turbidity p \<and> turbidity p \<le> 10
     \<and> 0 \<le> albedo p ! 0 \<and> albedo p ! 0 \<le> 1 \<and> 0 \<le> albedo p ! 1 \<and> albedo p ! 1 \<le> 1
     \<and> 0 \<le> albedo p ! 2 \<and> albedo p ! 2 \<le> 1"

definition example_tables :: SkyTables where
  "example_tables = \<lparr> paramsR = replicate 1080 0, paramsG = replicate 1080 0,
     paramsB = replicate 1080 0, radiancesR = replicate 120 0, radiancesG = replicate 120 0,
     radiancesB = replicate 120 0 \<rparr>"

definition example_sky_state :: SkyState where
  "example_sky_state = \<lparr> params = replicate 27 0, radiances = replicate 3 0 \<rparr>"

definition example_sky_wgsl :: SkyState_wgsl where
  "example_sky_wgsl = \<lparr> params_wgsl =
       [0, 0, 1, 0, 0, 0, 0, 0, 0,  0, 0, 1, 0, 0, 0, 0, 0, 0,  0, 0, 1, 0, 0, 0, 0, 0, 0],
     skyRadiances = [1, 1, 1], solarRadiances = [5, 5, 5], sunDirection = Vec3f 0 1 0 \<rparr>"

definition example_sky_c :: SkyState where
  "example_sky_c = \<lparr> params =
       [0, 0, 1, 0, 0, 0, 0, 0, 0,  0, 0, 1, 0, 0, 0, 0, 0, 0,  0, 0, 1, 0, 0, 0, 0, 0, 0],
     radiances = [1, 1, 1] \<rparr>"

definition example_texture :: "u32 list" where
  "example_texture = [0, 0, 0, 0,  0, 0, 0, 0,  0, 0, 0, 0,  0, 0x00FF0000, 0, 0]"

definition example_descriptor :: TextureDescriptor where
  "example_descriptor = \<lparr> width = 4, height = 4, offset = 0 \<rparr>"

text \<open>
  A scene of two triangles, one in the plane \<open>z = 1\<close> and one in the plane \<open>z = 2\<close>, under a
  hierarchy of one interior node and two leaves, and a ray that meets both triangles.  The leaf
  of the farther triangle is the first child, so the traversal visits it first.
\<close>

definition example_nodes :: "BvhNode list" where
  "example_nodes =
     [\<lparr> aabb = \<lparr> aabb_min = Vec3f 0 0 1, aabb_max = Vec3f 1 1 2 \<rparr>, trianglesOffset = 0,
        secondChildOffset = 2, triangleCount = 0, splitAxis = 2 \<rparr>,
      \<lparr> aabb = \<lparr> aabb_min = Vec3f 0 0 2, aabb_max = Vec3f 1 1 2 \<rparr>, trianglesOffset = 0,
        secondChildOffset = 0, triangleCount = 1, splitAxis = 0 \<rparr>,
      \<lparr> aabb = \<lparr> aabb_min = Vec3f 0 0 1, aabb_max = Vec3f 1 1 1 \<rparr>, trianglesOffset = 1,
        secondChildOffset = 0, triangleCount = 1, splitAxis = 0 \<rparr>]"

definition example_vertex :: "u32 \<Rightarrow> VertexAttributes" where
  "example_vertex i = \<lparr> n0 = Vec3f 0 0 1, n1 = Vec3f 0 0 1, n2 = Vec3f 0 0 1,
     uv0 = Vec2f 0 0, uv1 = Vec2f 1 0, uv2 = Vec2f 0 1, textureDescriptorIdx = i \<rparr>"

definition example_scene :: Bindings where
  "example_scene = \<lparr> frameCount = 0, skyState = example_sky_wgsl, bvhNodes = example_nodes,
     positionAttributes =
       [\<lparr> p0 = Vec3f 0 0 2, p1 = Vec3f 1 0 2, p2 = Vec3f 0 1 2 \<rparr>,
        \<lparr> p0 = Vec3f 0 0 1, p1 = Vec3f 1 0 1, p2 = Vec3f 0 1 1 \<rparr>],
     vertexAttributes = [example_vertex 0, example_vertex 1],
     textureDescriptors = [example_descriptor, example_descriptor],
     textures = example_texture,
     blueNoise = \<lparr> bn_width = 1, bn_height = 1, bn_data = [Vec2f (1 / 2) (1 / 2)] \<rparr> \<rparr>"

definition example_ray :: Ray where
  "example_ray = \<lparr> origin = Vec3f (1 / 4) (1 / 4) 0, direction = Vec3f (1 / 16) (1 / 16) 1 \<rparr>"

definition example_intersector :: RayAabbIntersector where
  "example_intersector = \<lparr> ri_origin = Vec3f (1 / 4) (1 / 4) 0, invDir = Vec3f 16 16 1,
     dirNeg = Vec3u 0 0 0 \<rparr>"

definition example_hit :: Intersection where
  "example_hit = \<lparr> isect_p = Vec3f 0 0 0, isect_n = Vec3f 0 0 0, isect_uv = Vec2f 0 0,
     isect_textureDescriptorIdx = 0 \<rparr>"






section \<open>Reference path tracer: temporal accumulation state\<close>

text \<open>
  \<^verbatim>\<open>ReferencePathTracer\<close> (reference_path_tracer.cpp) keeps, next to its GPU handles, the
  current render parameters, a frame counter and the accumulated sample count.  Only these
  three members take part in the accumulation logic; GPU resources are not modelled.

  The declaration of \<^verbatim>\<open>RenderParameters\<close> is in a header that is not part of the sources
  at hand.  Its members are read off the uses in reference_path_tracer.cpp
  (\<^verbatim>\<open>framebufferSize\<close>, \<^verbatim>\<open>camera\<close>, \<^verbatim>\<open>samplingParams\<close>, \<^verbatim>\<open>sky\<close>); the types of the
  framebuffer extent, the camera and the sky are left as type parameters.
\<close>

record SamplingParams =
  numSamplesPerPixel :: u32
  numBounces :: u32

record ('fb, 'cam, 'sky) RenderParameters =
  framebufferSize :: 'fb
  camera :: 'cam
  samplingParams :: SamplingParams
  sky :: 'sky

record ('fb, 'cam, 'sky) ReferencePathTracer =
  mCurrentRenderParams :: "('fb, 'cam, 'sky) RenderParameters"
  mFrameCount :: u32
  mAccumulatedSampleCount :: u32

datatype render_error = AssertionFailed

text \<open>The constructor: the member initialisers of the three modelled members.\<close>

definition newReferencePathTracer ::
  "('fb, 'cam, 'sky) RenderParameters \<Rightarrow> ('fb, 'cam, 'sky) ReferencePathTracer" where
  "newReferencePathTracer renderParams =
     \<lparr> mCurrentRenderParams = renderParams, mFrameCount = 0, mAccumulatedSampleCount = 0 \<rparr>"

text \<open>
  Modelled from the spec: \<^verbatim>\<open>operator!=\<close> of \<^verbatim>\<open>RenderParameters\<close> is declared in the missing
  header; following the spec (a reset ``whenever any render parameter (camera, sampling
  config, sky config) changes'') it is member-wise inequality, that is, inequality of the
  record.
\<close>

definition setRenderParameters ::
  "('fb, 'cam, 'sky) RenderParameters \<Rightarrow> ('fb, 'cam, 'sky) ReferencePathTracer
     \<Rightarrow> ('fb, 'cam, 'sky) ReferencePathTracer" where
  "setRenderParameters renderParams self =
     (if mCurrentRenderParams self \<noteq> renderParams
      then self \<lparr> mCurrentRenderParams := renderParams, mAccumulatedSampleCount := 0 \<rparr>
      else self)"

text \<open>
  \<^verbatim>\<open>render\<close>.  The argument \<open>nextTexture\<close> says whether
  \<^verbatim>\<open>wgpuSwapChainGetCurrentTextureView\<close> returned a texture view; when it did not, the
  function returns before it touches any member.  The \<^verbatim>\<open>assert\<close> is a result of its own.
  The sum \<^verbatim>\<open>mAccumulatedSampleCount + 1\<close> is a 32-bit unsigned sum and wraps around.
\<close>

definition render ::
  "bool \<Rightarrow> ('fb, 'cam, 'sky) ReferencePathTracer
     \<Rightarrow> render_error + ('fb, 'cam, 'sky) ReferencePathTracer" where
  "render nextTexture self =
     (if \<not> nextTexture then Inr self
      else if \<not> (mAccumulatedSampleCount self
                   \<le> numSamplesPerPixel (samplingParams (mCurrentRenderParams self)))
      then Inl AssertionFailed
      else Inr (self \<lparr> mFrameCount := mFrameCount self + 1,
                        mAccumulatedSampleCount :=
                          min (mAccumulatedSampleCount self + 1)
                              (numSamplesPerPixel (samplingParams (mCurrentRenderParams self))) \<rparr>))"

text \<open>A host session: any sequence of the two operations.\<close>

datatype ('fb, 'cam, 'sky) renderer_op =
  SetRenderParameters "('fb, 'cam, 'sky) RenderParameters"
  | Render bool

fun apply_op ::
  "('fb, 'cam, 'sky) renderer_op \<Rightarrow> ('fb, 'cam, 'sky) ReferencePathTracer
     \<Rightarrow> render_error + ('fb, 'cam, 'sky) ReferencePathTracer" where
  "apply_op (SetRenderParameters p) self = Inr (setRenderParameters p self)"
| "apply_op (Render b) self = render b self"

fun run_ops ::
  "('fb, 'cam, 'sky) renderer_op list \<Rightarrow> ('fb, 'cam, 'sky) ReferencePathTracer
     \<Rightarrow> render_error + ('fb, 'cam, 'sky) ReferencePathTracer" where
  "run_ops [] self = Inr self"
| "run_ops (a # as) self =
     (case apply_op a self of Inl e \<Rightarrow> Inl e | Inr self' \<Rightarrow> run_ops as self')"

definition sample_count_inv :: "('fb, 'cam, 'sky) ReferencePathTracer \<Rightarrow> bool" where
  "sample_count_inv self \<longleftrightarrow>
     mAccumulatedSampleCount self \<le> numSamplesPerPixel (samplingParams (mCurrentRenderParams self))"

text \<open>Concrete renderers used to evaluate the operations.\<close>

definition example_params :: "(unit, unit, unit) RenderParameters" where
  "example_params = \<lparr> framebufferSize = (), camera = (),
     samplingParams = \<lparr> numSamplesPerPixel = 64, numBounces = 2 \<rparr>, sky = () \<rparr>"

definition example_params_8 :: "(unit, unit, unit) RenderParameters" where
  "example_params_8 = \<lparr> framebufferSize = (), camera = (),
     samplingParams = \<lparr> numSamplesPerPixel = 8, numBounces = 2 \<rparr>, sky = () \<rparr>"

definition example_renderer_full :: "(unit, unit, unit) ReferencePathTracer" where
  "example_renderer_full = \<lparr> mCurrentRenderParams = \<lparr> framebufferSize = (), camera = (),
       samplingParams = \<lparr> numSamplesPerPixel = - 1, numBounces = 2 \<rparr>, sky = () \<rparr>,
     mFrameCount = 0, mAccumulatedSampleCount = - 1 \<rparr>"



section \<open>Temporal accumulation: the sample counter\<close>

lemma setRenderParameters_inv:
  "sample_count_inv self \<Longrightarrow> sample_count_inv (setRenderParameters p self)"
  by (auto simp: sample_count_inv_def setRenderParameters_def)

lemma render_inv:
  "render b self = Inr self' \<Longrightarrow> sample_count_inv self \<Longrightarrow> sample_count_inv self'"
  by (auto simp: sample_count_inv_def render_def split: if_splits)

lemma render_no_assert: "sample_count_inv self \<Longrightarrow> \<exists>self'. render b self = Inr self'"
  by (auto simp: sample_count_inv_def render_def split: if_splits)

lemma apply_op_inv:
  assumes "sample_count_inv self"
  shows "\<exists>self'. apply_op a self = Inr self' \<and> sample_count_inv self'"
proof (cases a)
  case (SetRenderParameters p)
  then show ?thesis using assms by (simp add: setRenderParameters_inv)
next
  case (Render b)
  from render_no_assert[OF assms, of b] obtain s where "render b self = Inr s" by blast
  with render_inv[OF this assms] Render show ?thesis by simp
qed

lemma run_ops_inv:
  "sample_count_inv self \<Longrightarrow> \<exists>self'. run_ops as self = Inr self' \<and> sample_count_inv self'"
proof (induction as arbitrary: self)
  case Nil
  then show ?case by simp
next
  case (Cons a as)
  from apply_op_inv[OF Cons.prems, of a] obtain s1
    where s1: "apply_op a self = Inr s1" "sample_count_inv s1" by blast
  from Cons.IH[OF s1(2)] s1(1) show ?case by simp
qed

lemma new_inv: "sample_count_inv (newReferencePathTracer p)"
  by (simp add: sample_count_inv_def newReferencePathTracer_def)

lemma render_count:
  assumes "sample_count_inv self"
    and "unat (numSamplesPerPixel (samplingParams (mCurrentRenderParams self))) < 2 ^ 32 - 1"
  shows "\<exists>self'. render True self = Inr self'
      \<and> unat (mAccumulatedSampleCount self')
          = min (unat (mAccumulatedSampleCount self) + 1)
                (unat (numSamplesPerPixel (samplingParams (mCurrentRenderParams self))))
      \<and> mCurrentRenderParams self' = mCurrentRenderParams self"
  using assms
  apply (simp add: render_def sample_count_inv_def)
  apply (simp add: min_def word_le_nat_alt unat_word_ariths)
  done

lemma render_skip: "render False self = Inr self"
  by (simp add: render_def)

lemma run_skipped_renders: "run_ops (replicate n (Render False)) self = Inr self"
  by (induction n) (simp_all add: render_skip)

lemma run_renders:
  assumes "sample_count_inv self"
    and "unat (numSamplesPerPixel (samplingParams (mCurrentRenderParams self))) < 2 ^ 32 - 1"
  shows "\<exists>self'. run_ops (replicate n (Render True)) self = Inr self'
      \<and> unat (mAccumulatedSampleCount self')
          = min (unat (mAccumulatedSampleCount self) + n)
                (unat (numSamplesPerPixel (samplingParams (mCurrentRenderParams self))))
      \<and> mCurrentRenderParams self' = mCurrentRenderParams self"
  using assms
proof (induction n arbitrary: self)
  case 0
  then show ?case by (simp add: sample_count_inv_def word_le_nat_alt)
next
  case (Suc n)
  from render_count[OF Suc.prems] obtain s1 where s1: "render True self = Inr s1"
    "unat (mAccumulatedSampleCount s1)
      = min (unat (mAccumulatedSampleCount self) + 1)
            (unat (numSamplesPerPixel (samplingParams (mCurrentRenderParams self))))"
    "mCurrentRenderParams s1 = mCurrentRenderParams self" by blast
  have inv1: "sample_count_inv s1" using render_inv[OF s1(1) Suc.prems(1)] .
  from Suc.IH[OF inv1] Suc.prems(2) s1(3) obtain s2
    where s2: "run_ops (replicate n (Render True)) s1 = Inr s2"
    "unat (mAccumulatedSampleCount s2)
      = min (unat (mAccumulatedSampleCount s1) + n)
            (unat (numSamplesPerPixel (samplingParams (mCurrentRenderParams s1))))"
    "mCurrentRenderParams s2 = mCurrentRenderParams s1" by auto
  show ?case using s1 s2 by (simp add: min_def)
qed

lemma run_100_renders:
  assumes "numSamplesPerPixel (samplingParams p) = 64"
  shows "\<exists>s. run_ops (replicate 100 (Render True)) (newReferencePathTracer p) = Inr s
           \<and> mAccumulatedSampleCount s = 64"
proof -
  let ?s = "newReferencePathTracer p"
  have b: "unat (numSamplesPerPixel (samplingParams (mCurrentRenderParams ?s))) < 2 ^ 32 - 1"
    using assms by (simp add: newReferencePathTracer_def)
  from run_renders[OF new_inv b, of 100] assms obtain s
    where "run_ops (replicate 100 (Render True)) ?s = Inr s"
      "unat (mAccumulatedSampleCount s) = 64"
    by (auto simp: newReferencePathTracer_def)
  moreover have "mAccumulatedSampleCount s = word_of_nat (unat (mAccumulatedSampleCount s))"
    by simp
  ultimately show ?thesis by simp
qed

text \<open>
  Claim C6, as the code has it.  The counter starts at 0.  After any sequence of
  \<^verbatim>\<open>setRenderParameters\<close> and \<^verbatim>\<open>render\<close> calls on a new renderer the assertion of
  \<^verbatim>\<open>render\<close> has never failed and the counter is at most the configured
  \<^verbatim>\<open>numSamplesPerPixel\<close>.  A \<^verbatim>\<open>render\<close> call that obtains a swap-chain texture sets the
  counter to the minimum of counter + 1 and the target (for a target below \<open>2^32 - 1\<close>, where
  the 32-bit sum cannot wrap); a call that obtains no texture returns early and leaves the
  renderer as it was.  With target 64, a hundred calls that each obtain a texture leave the
  counter at 64.  \<^verbatim>\<open>setRenderParameters\<close> with parameters that differ from the current ones
  stores them and resets the counter to 0; with equal parameters it changes nothing.
\<close>

theorem sample_count_accumulation:
  fixes p q :: "('fb, 'cam, 'sky) RenderParameters"
    and self :: "('fb, 'cam, 'sky) ReferencePathTracer"
  shows "mAccumulatedSampleCount (newReferencePathTracer p) = 0
    \<and> (\<exists>s. run_ops ops (newReferencePathTracer p) = Inr s
           \<and> 0 \<le> unat (mAccumulatedSampleCount s)
           \<and> unat (mAccumulatedSampleCount s)
               \<le> unat (numSamplesPerPixel (samplingParams (mCurrentRenderParams s))))
    \<and> (sample_count_inv self
          \<and> unat (numSamplesPerPixel (samplingParams (mCurrentRenderParams self))) < 2 ^ 32 - 1
        \<longrightarrow> (\<exists>self'. render True self = Inr self'
                \<and> unat (mAccumulatedSampleCount self')
                    = min (unat (mAccumulatedSampleCount self) + 1)
                          (unat (numSamplesPerPixel (samplingParams (mCurrentRenderParams self))))))
    \<and> render False self = Inr self
    \<and> (numSamplesPerPixel (samplingParams p) = 64
        \<longrightarrow> (\<exists>s. run_ops (replicate 100 (Render True)) (newReferencePathTracer p) = Inr s
                \<and> mAccumulatedSampleCount s = 64))
    \<and> (mCurrentRenderParams self \<noteq> q
        \<longrightarrow> mAccumulatedSampleCount (setRenderParameters q self) = 0
              \<and> mCurrentRenderParams (setRenderParameters q self) = q)
    \<and> (mCurrentRenderParams self = q \<longrightarrow> setRenderParameters q self = self)"
proof -
  have "\<exists>s. run_ops ops (newReferencePathTracer p) = Inr s
           \<and> 0 \<le> unat (mAccumulatedSampleCount s)
           \<and> unat (mAccumulatedSampleCount s)
               \<le> unat (numSamplesPerPixel (samplingParams (mCurrentRenderParams s)))"
    using run_ops_inv[OF new_inv, of ops p]
    by (auto simp: sample_count_inv_def word_le_nat_alt)
  moreover have "\<exists>self'. render True self = Inr self'
                \<and> unat (mAccumulatedSampleCount self')
                    = min (unat (mAccumulatedSampleCount self) + 1)
                          (unat (numSamplesPerPixel (samplingParams (mCurrentRenderParams self))))"
    if "sample_count_inv self"
      and "unat (numSamplesPerPixel (samplingParams (mCurrentRenderParams self))) < 2 ^ 32 - 1"
    using render_count[OF that] by blast
  moreover have "\<exists>s. run_ops (replicate 100 (Render True)) (newReferencePathTracer p) = Inr s
                \<and> mAccumulatedSampleCount s = 64"
    if "numSamplesPerPixel (samplingParams p) = 64"
    using run_100_renders[OF that] .
  ultimately show ?thesis
    by (simp add: newReferencePathTracer_def render_skip setRenderParameters_def)
qed

theorem sample_count_accumulation_witness:
  "sample_count_inv (newReferencePathTracer example_params)
   \<and> unat (numSamplesPerPixel (samplingParams
              (mCurrentRenderParams (newReferencePathTracer example_params)))) < 2 ^ 32 - 1
   \<and> (\<exists>self'. render True (newReferencePathTracer example_params) = Inr self'
         \<and> unat (mAccumulatedSampleCount self') = 1)
   \<and> numSamplesPerPixel (samplingParams example_params) = 64
   \<and> (\<exists>s. run_ops (replicate 100 (Render True)) (newReferencePathTracer example_params) = Inr s
         \<and> mAccumulatedSampleCount s = 64)
   \<and> mCurrentRenderParams (newReferencePathTracer example_params) \<noteq> example_params_8
   \<and> mAccumulatedSampleCount
        (setRenderParameters example_params_8 (newReferencePathTracer example_params)) = 0
   \<and> mCurrentRenderParams (newReferencePathTracer example_params) = example_params
   \<and> setRenderParameters example_params (newReferencePathTracer example_params)
       = newReferencePathTracer example_params"
  using sample_count_accumulation[of example_params "[]" "newReferencePathTracer example_params"
      example_params_8]
    sample_count_accumulation[of example_params "[]" "newReferencePathTracer example_params"
      example_params]
  by (simp add: new_inv)
    (simp add: example_params_def example_params_8_def newReferencePathTracer_def)

text \<open>
  Claim C6 as it is worded fails on the early return of \<^verbatim>\<open>render\<close>: a hundred
  \<^verbatim>\<open>render\<close> calls that obtain no swap-chain texture leave the counter at 0 although the
  target is 64.  It also fails where the 32-bit sum wraps: with target and counter both
  \<open>2^32 - 1\<close> a rendered frame sets the counter to 0.
\<close>

theorem sample_count_counterexample:
  "numSamplesPerPixel (samplingParams example_params) = 64
   \<and> run_ops (replicate 100 (Render False)) (newReferencePathTracer example_params)
       = Inr (newReferencePathTracer example_params)
   \<and> mAccumulatedSampleCount (newReferencePathTracer example_params) \<noteq> 64
   \<and> render True (example_renderer_full)
       = Inr (example_renderer_full \<lparr> mFrameCount := 1, mAccumulatedSampleCount := 0 \<rparr>)
   \<and> mAccumulatedSampleCount example_renderer_full
       = numSamplesPerPixel (samplingParams (mCurrentRenderParams example_renderer_full))"
  by (simp add: run_skipped_renders)
    (simp add: example_params_def newReferencePathTracer_def example_renderer_full_def render_def)

section \<open>Sky state construction\<close>






lemma skyStateNew_error_unchanged:
  "skyStateNew tb p st = Inr (r, st') \<Longrightarrow> r \<noteq> SkyStateResult_Success \<Longrightarrow> st' = st"
  by (auto simp: skyStateNew_def Let_def bind_res_def split: if_splits sum.splits)

lemma skyStateNew_success_valid:
  "skyStateNew tb p st = Inr (SkyStateResult_Success, st') \<Longrightarrow> sky_inputs_valid p"
  by (auto simp: skyStateNew_def Let_def bind_res_def sky_inputs_valid_def
      split: if_splits sum.splits)




text \<open>
  Claim C10.  All three validations of \<^verbatim>\<open>skyStateNew\<close> come before the first write: when the
  call returns an error code, the \<^verbatim>\<open>SkyState\<close> object is exactly as it was passed; a state
  that differs from the one passed is returned only with \<^verbatim>\<open>Success\<close>, and then all inputs were
  valid; and every invalid input does return an error code together with the untouched state.
\<close>

theorem skyStateNew_error_atomic:
  "(skyStateNew tb p st = Inr (r, st') \<and> r \<noteq> SkyStateResult_Success \<longrightarrow> st' = st)
   \<and> (skyStateNew tb p st = Inr (r, st') \<and> st' \<noteq> st
        \<longrightarrow> r = SkyStateResult_Success \<and> sky_inputs_valid p)
   \<and> (\<not> sky_inputs_valid p
        \<longrightarrow> (\<exists>e. e \<noteq> SkyStateResult_Success \<and> skyStateNew tb p st = Inr (e, st)))"
proof -
  have 1: "st' = st" if "skyStateNew tb p st = Inr (r, st')" "r \<noteq> SkyStateResult_Success"
    using skyStateNew_error_unchanged[OF that] .
  have 2: "r = SkyStateResult_Success \<and> sky_inputs_valid p"
    if "skyStateNew tb p st = Inr (r, st')" "st' \<noteq> st"
  proof -
    have "r = SkyStateResult_Success" using 1 that by blast
    with that(1) skyStateNew_success_valid show ?thesis by blast
  qed
  have 3: "\<exists>e. e \<noteq> SkyStateResult_Success \<and> skyStateNew tb p st = Inr (e, st)"
    if "\<not> sky_inputs_valid p"
    using that by (auto simp: skyStateNew_def Let_def sky_inputs_valid_def)
  from 1 2 3 show ?thesis by blast
qed

theorem skyStateNew_error_atomic_witness:
  "skyStateNew example_tables
      \<lparr> elevation = 3 / 4, turbidity = 11, albedo = [3 / 10, 3 / 10, 3 / 10] \<rparr>
      example_sky_state
     = Inr (SkyStateResult_TurbidityOutOfRange, example_sky_state)
   \<and> SkyStateResult_TurbidityOutOfRange \<noteq> SkyStateResult_Success
   \<and> \<not> sky_inputs_valid
        \<lparr> elevation = 3 / 4, turbidity = 11, albedo = [3 / 10, 3 / 10, 3 / 10] \<rparr>
   \<and> (\<exists>e. e \<noteq> SkyStateResult_Success
        \<and> skyStateNew example_tables
            \<lparr> elevation = 3 / 4, turbidity = 11, albedo = [3 / 10, 3 / 10, 3 / 10] \<rparr>
            example_sky_state
           = Inr (e, example_sky_state))"
  using skyStateNew_error_atomic[of example_tables
      "\<lparr> elevation = 3 / 4, turbidity = 11, albedo = [3 / 10, 3 / 10, 3 / 10] \<rparr>"
      example_sky_state SkyStateResult_TurbidityOutOfRange example_sky_state]
  by (simp add: sky_inputs_valid_def skyStateNew_def PI_def)

section \<open>Sky radiance\<close>

lemma array_read_ok: "unat i < length arr \<Longrightarrow> array_read arr i = Inr (arr ! unat i)"
  by (simp add: array_read_def)

lemma unat_9c:
  "unat c < 3 \<Longrightarrow> k < 9 \<Longrightarrow> unat (9 * c + word_of_nat k :: u32) = 9 * unat c + k"
  by (simp add: unat_word_ariths unat_of_nat)

lemma unat_9c_num:
  "unat (c::u32) < 3 \<Longrightarrow> unat (9 * c) = 9 * unat c
    \<and> unat (9 * c + 1) = 9 * unat c + 1 \<and> unat (9 * c + 2) = 9 * unat c + 2
    \<and> unat (9 * c + 3) = 9 * unat c + 3 \<and> unat (9 * c + 4) = 9 * unat c + 4
    \<and> unat (9 * c + 5) = 9 * unat c + 5 \<and> unat (9 * c + 6) = 9 * unat c + 6
    \<and> unat (9 * c + 7) = 9 * unat c + 7 \<and> unat (9 * c + 8) = 9 * unat c + 8"
  using unat_9c[of c 0] unat_9c[of c 1] unat_9c[of c 2] unat_9c[of c 3] unat_9c[of c 4]
    unat_9c[of c 5] unat_9c[of c 6] unat_9c[of c 7] unat_9c[of c 8]
  by simp

lemma TERRESTRIAL_SOLAR_RADIUS_pos: "0 < TERRESTRIAL_SOLAR_RADIUS"
  by (simp add: TERRESTRIAL_SOLAR_RADIUS_def DEGREES_TO_RADIANS_def PI_def)

lemma skyRadiance_eq:
  assumes c: "unat channel < 3"
    and l: "length (params_wgsl st) = 27" "length (skyRadiances st) = 3"
      "length (solarRadiances st) = 3"
  shows "skyRadiance st theta gamma channel =
    (if 1 + params_wgsl st ! (9 * unat channel + 8) * params_wgsl st ! (9 * unat channel + 8)
           - 2 * params_wgsl st ! (9 * unat channel + 8) * cos gamma \<le> 0
     then Inl NonFinite
     else Inr (skyRadiances st ! unat channel
                 * radiance_distribution (\<lambda>k. params_wgsl st ! (9 * unat channel + k)) theta gamma
               + (if gamma \<le> TERRESTRIAL_SOLAR_RADIUS then solarRadiances st ! unat channel
                  else 0)))"
proof -
  note u = unat_9c_num[OF c]
  have b: "9 * unat channel + 8 < 27" using c by simp
  show ?thesis
    unfolding skyRadiance_def Let_def
    using c l b TERRESTRIAL_SOLAR_RADIUS_pos
    by (simp add: array_read_ok u bind_res_def mie_denominator_def Let_def
        radiance_distribution_def pos_divide_le_eq)
qed

lemma skyStateRadiance_eq:
  "skyStateRadiance st theta gamma ch =
    (if 1 + params st ! (9 * channel_index ch + 8) * params st ! (9 * channel_index ch + 8)
           - 2 * params st ! (9 * channel_index ch + 8) * cos gamma \<le> 0
     then Inl NonFinite
     else Inr (radiances st ! channel_index ch
                 * radiance_distribution (\<lambda>k. params st ! (9 * channel_index ch + k)) theta gamma))"
  unfolding skyStateRadiance_def Let_def
  by (simp add: bind_res_def mie_denominator_def Let_def radiance_distribution_def)

text \<open>
  Claim C4, as the code has it.  For a channel index below 3, \<^verbatim>\<open>skyRadiance\<close> of the shader
  returns the radiance distribution of the channel's nine coefficients, scaled by the
  channel's sky radiance, plus the channel's solar radiance when \<open>gamma\<close> is at most the
  terrestrial solar radius (0.255 degrees in radians) and plus zero otherwise, for every
  \<open>theta\<close> and \<open>gamma\<close>.  \<^verbatim>\<open>skyStateRadiance\<close> of hw_skymodel.c returns the scaled radiance
  distribution alone: its \<^verbatim>\<open>SkyState\<close> has no solar radiance and the function adds no
  solar term.  (Where the base of the power in the Mie term is not positive the result is not
  a finite number and the model has \<open>NonFinite\<close>.)
\<close>

theorem sky_radiance_evaluation:
  "(unat channel < 3 \<and> length (params_wgsl st) = 27 \<and> length (skyRadiances st) = 3
      \<and> length (solarRadiances st) = 3
    \<longrightarrow> skyRadiance st theta gamma channel =
      (if 1 + params_wgsl st ! (9 * unat channel + 8) * params_wgsl st ! (9 * unat channel + 8)
             - 2 * params_wgsl st ! (9 * unat channel + 8) * cos gamma \<le> 0
       then Inl NonFinite
       else Inr (skyRadiances st ! unat channel
                   * radiance_distribution (\<lambda>k. params_wgsl st ! (9 * unat channel + k))
                       theta gamma
                 + (if gamma \<le> TERRESTRIAL_SOLAR_RADIUS then solarRadiances st ! unat channel
                    else 0))))
   \<and> skyStateRadiance cst theta gamma ch =
      (if 1 + params cst ! (9 * channel_index ch + 8) * params cst ! (9 * channel_index ch + 8)
             - 2 * params cst ! (9 * channel_index ch + 8) * cos gamma \<le> 0
       then Inl NonFinite
       else Inr (radiances cst ! channel_index ch
                   * radiance_distribution (\<lambda>k. params cst ! (9 * channel_index ch + k))
                       theta gamma))"
  using skyRadiance_eq[of channel st theta gamma] skyStateRadiance_eq[of cst theta gamma ch]
  by blast

theorem sky_radiance_evaluation_witness:
  "unat CHANNEL_R < 3 \<and> length (params_wgsl example_sky_wgsl) = 27
   \<and> length (skyRadiances example_sky_wgsl) = 3 \<and> length (solarRadiances example_sky_wgsl) = 3
   \<and> skyRadiance example_sky_wgsl 0 0 CHANNEL_R = Inr (1 * 1 + 5)
   \<and> skyRadiance example_sky_wgsl 0 1 CHANNEL_R = Inr (1 * 1 + 0)
   \<and> skyStateRadiance example_sky_c 0 0 Channel_R = Inr (1 * 1)"
  using sky_radiance_evaluation[of CHANNEL_R example_sky_wgsl 0 0 example_sky_c Channel_R]
    sky_radiance_evaluation[of CHANNEL_R example_sky_wgsl 0 1 example_sky_c Channel_R]
  by (simp add: example_sky_wgsl_def example_sky_c_def CHANNEL_R_def channel_index_def
      radiance_distribution_def TERRESTRIAL_SOLAR_RADIUS_def DEGREES_TO_RADIANS_def PI_def)

text \<open>
  Claim C4 as it is worded fails for \<^verbatim>\<open>skyStateRadiance\<close>: at \<open>gamma = 0\<close>, inside the solar
  radius, it returns the scaled distribution (here 1) and nothing more, where the shader's
  \<^verbatim>\<open>skyRadiance\<close> on the same coefficients adds the solar radiance 5.
\<close>

theorem sky_radiance_counterexample:
  "0 \<le> TERRESTRIAL_SOLAR_RADIUS
   \<and> radiances example_sky_c ! 0 * radiance_distribution (\<lambda>k. params example_sky_c ! k) 0 0 = 1
   \<and> skyStateRadiance example_sky_c 0 0 Channel_R = Inr 1
   \<and> skyRadiance example_sky_wgsl 0 0 CHANNEL_R = Inr 6"
  by (simp add: skyRadiance_eq skyStateRadiance_eq example_sky_wgsl_def example_sky_c_def
      CHANNEL_R_def channel_index_def radiance_distribution_def TERRESTRIAL_SOLAR_RADIUS_def
      DEGREES_TO_RADIANS_def PI_def)

section \<open>Texture lookup\<close>














section \<open>Ray--triangle intersection\<close>








section \<open>The stack of the traversal\<close>


lemma bvh_at_InteriorE:
  "bvh_at nodes i (Interior l r) \<Longrightarrow>
     unat i < length nodes \<and> \<not> triangleCount (nodes ! unat i) > 0
     \<and> bvh_at nodes (i + 1) l \<and> bvh_at nodes (secondChildOffset (nodes ! unat i)) r"
  by (erule bvh_at.cases) auto


lemma bvh_at_shape:
  "bvh_at nodes i t \<Longrightarrow> (t = Leaf) = (triangleCount (nodes ! unat i) > 0)"
  by (erule bvh_at.cases) auto

lemma unat_pred: "(w::u32) \<noteq> 0 \<Longrightarrow> unat (w - 1) = unat w - 1"
  by (simp add: unat_minus_one)

lemma pop_node_rel:
  assumes "cursor_rel nodes s t ts"
  shows "(ts = [] \<and> pop_node s = Inr None)
     \<or> (ts \<noteq> [] \<and> pop_node s = Inr (Some (s \<lparr> toVisitOffset := toVisitOffset s - 1,
              currentNodeIdx := nodesToVisit s ! (length ts - 1) \<rparr>))
         \<and> cursor_rel nodes (s \<lparr> toVisitOffset := toVisitOffset s - 1,
              currentNodeIdx := nodesToVisit s ! (length ts - 1) \<rparr>) (last ts) (butlast ts))"
proof (cases "ts = []")
  case True
  with assms have "unat (toVisitOffset s) = 0" by (simp add: cursor_rel_def)
  then have "toVisitOffset s = 0" by (simp add: unat_eq_zero)
  with True show ?thesis by (simp add: pop_node_def)
next
  case False
  from assms have l: "length (nodesToVisit s) = 32" and o: "unat (toVisitOffset s) = length ts"
    and d: "interior_depth t + length ts \<le> 32"
    and k: "\<forall>k < length ts. bvh_at nodes (nodesToVisit s ! k) (ts ! k) \<and> interior_depth (ts ! k) + k \<le> 32"
    by (simp_all add: cursor_rel_def)
  from False o have nz: "toVisitOffset s \<noteq> 0" by auto
  have u: "unat (toVisitOffset s - 1) = length ts - 1" using unat_pred[OF nz] o by simp
  have lt: "length ts - 1 < length ts" using False by simp
  have le: "length ts \<le> 32" using d by simp
  have p: "pop_node s = Inr (Some (s \<lparr> toVisitOffset := toVisitOffset s - 1,
              currentNodeIdx := nodesToVisit s ! (length ts - 1) \<rparr>))"
    using nz u l lt le by (simp add: pop_node_def Let_def stack_read_def bind_res_def)
  have la: "last ts = ts ! (length ts - 1)" using False by (simp add: last_conv_nth)
  have "cursor_rel nodes (s \<lparr> toVisitOffset := toVisitOffset s - 1,
              currentNodeIdx := nodesToVisit s ! (length ts - 1) \<rparr>) (last ts) (butlast ts)"
    unfolding cursor_rel_def using l u k lt la False
    by (auto simp: nth_butlast)
  with False p show ?thesis by simp
qed

lemma vec3u_index_cases:
  "vec3u_index dn a = Inl IndexOutOfBounds \<or> (\<exists>d. vec3u_index dn a = Inr d)"
  by (cases dn) (simp add: vec3u_index_def)

lemma push_children_rel:
  assumes r: "cursor_rel nodes s (Interior l r) ts"
    and n: "node = nodes ! unat (currentNodeIdx s)"
  shows "push_children dn node s = Inl IndexOutOfBounds
     \<or> (\<exists>d. vec3u_index dn (splitAxis node) = Inr d)
       \<and> ((push_children dn node s
              = Inr (s \<lparr> nodesToVisit := (nodesToVisit s)[length ts := currentNodeIdx s + 1],
                         currentNodeIdx := secondChildOffset node,
                         toVisitOffset := toVisitOffset s + 1 \<rparr>)
            \<and> cursor_rel nodes
                 (s \<lparr> nodesToVisit := (nodesToVisit s)[length ts := currentNodeIdx s + 1],
                      currentNodeIdx := secondChildOffset node,
                      toVisitOffset := toVisitOffset s + 1 \<rparr>) r (ts @ [l]))
          \<or> (push_children dn node s
              = Inr (s \<lparr> nodesToVisit := (nodesToVisit s)[length ts := secondChildOffset node],
                         currentNodeIdx := currentNodeIdx s + 1,
                         toVisitOffset := toVisitOffset s + 1 \<rparr>)
            \<and> cursor_rel nodes
                 (s \<lparr> nodesToVisit := (nodesToVisit s)[length ts := secondChildOffset node],
                      currentNodeIdx := currentNodeIdx s + 1,
                      toVisitOffset := toVisitOffset s + 1 \<rparr>) l (ts @ [r])))"
proof -
  from r have len: "length (nodesToVisit s) = 32" and o: "unat (toVisitOffset s) = length ts"
    and b: "bvh_at nodes (currentNodeIdx s) (Interior l r)"
    and d: "interior_depth (Interior l r) + length ts \<le> 32"
    and k: "\<forall>k < length ts. bvh_at nodes (nodesToVisit s ! k) (ts ! k) \<and> interior_depth (ts ! k) + k \<le> 32"
    by (simp_all add: cursor_rel_def)
  from bvh_at_InteriorE[OF b] n have bl: "bvh_at nodes (currentNodeIdx s + 1) l"
    and br: "bvh_at nodes (secondChildOffset node) r" by simp_all
  from d have lt: "length ts < 32" and dl: "interior_depth l + Suc (length ts) \<le> 32"
    and dr: "interior_depth r + Suc (length ts) \<le> 32" by simp_all
  have u: "unat (toVisitOffset s + 1) = Suc (length ts)"
    using o lt by (simp add: unat_word_ariths)
  from vec3u_index_cases[of dn "splitAxis node"] show ?thesis
  proof
    assume "vec3u_index dn (splitAxis node) = Inl IndexOutOfBounds"
    then show ?thesis by (simp add: push_children_def bind_res_def)
  next
    assume "\<exists>d. vec3u_index dn (splitAxis node) = Inr d"
    then obtain dd where dd: "vec3u_index dn (splitAxis node) = Inr dd" by blast
    show ?thesis
    proof (cases "dd = 1")
      case True
      let ?s' = "s \<lparr> nodesToVisit := (nodesToVisit s)[length ts := currentNodeIdx s + 1],
                      currentNodeIdx := secondChildOffset node,
                      toVisitOffset := toVisitOffset s + 1 \<rparr>"
      have p: "push_children dn node s = Inr ?s'"
        using dd True o lt len by (simp add: push_children_def bind_res_def stack_write_def)
      have "cursor_rel nodes ?s' r (ts @ [l])"
        unfolding cursor_rel_def using len u br bl dl dr k lt
        by (auto simp: nth_append nth_list_update less_Suc_eq)
      with p dd show ?thesis by blast
    next
      case False
      let ?s' = "s \<lparr> nodesToVisit := (nodesToVisit s)[length ts := secondChildOffset node],
                      currentNodeIdx := currentNodeIdx s + 1,
                      toVisitOffset := toVisitOffset s + 1 \<rparr>"
      have p: "push_children dn node s = Inr ?s'"
        using dd False o lt len by (simp add: push_children_def bind_res_def stack_write_def)
      have "cursor_rel nodes ?s' l (ts @ [r])"
        unfolding cursor_rel_def using len u br bl dl dr k lt
        by (auto simp: nth_append nth_list_update less_Suc_eq)
      with p dd show ?thesis by blast
    qed
  qed
qed

lemma cursor_rel_cong:
  "toVisitOffset s' = toVisitOffset s \<Longrightarrow> currentNodeIdx s' = currentNodeIdx s
   \<Longrightarrow> nodesToVisit s' = nodesToVisit s
   \<Longrightarrow> cursor_rel nodes s' t ts = cursor_rel nodes s t ts"
  by (simp add: cursor_rel_def)

lemma closest_triangles_cursor:
  "closest_triangles triT node idx s = Inr s' \<Longrightarrow>
     toVisitOffset s' = toVisitOffset s \<and> currentNodeIdx s' = currentNodeIdx s
     \<and> nodesToVisit s' = nodesToVisit s"
proof (induction triT node idx s rule: closest_triangles.induct)
  case (1 triT node idx s)
  show ?case
  proof (cases "idx < triangleCount node")
    case False
    with "1.prems" show ?thesis by (simp add: closest_triangles.simps[of triT node idx s])
  next
    case True
    show ?thesis
    proof (cases "triT (trianglesOffset node + idx) (st_tmax s)")
      case (Inl e)
      with True "1.prems" show ?thesis by (simp add: closest_triangles.simps[of triT node idx s])
    next
      case (Inr r)
      show ?thesis
      proof (cases r)
        case None
        with True Inr "1.prems" "1.IH"(1)[OF True Inr None] show ?thesis
          by (simp add: closest_triangles.simps[of triT node idx s])
      next
        case (Some ht)
        obtain h t where ht: "ht = (h, t)" by (cases ht)
        from True Inr Some ht "1.prems"
        have "closest_triangles triT node (idx + 1)
            (s\<lparr>st_tmax := t, st_didIntersect := True, st_hit := h\<rparr>) = Inr s'"
          by (simp add: closest_triangles.simps[of triT node idx s])
        from "1.IH"(2)[OF True Inr Some ht[symmetric] this] show ?thesis by simp
      qed
    qed
  qed
qed


lemma pop_node_inv:
  assumes "cursor_inv nodes s"
  shows "pop_node s = Inr None \<or> (\<exists>s'. pop_node s = Inr (Some s') \<and> cursor_inv nodes s')"
proof -
  from assms obtain t ts where "cursor_rel nodes s t ts" by (auto simp: cursor_inv_def)
  from pop_node_rel[OF this] show ?thesis by (auto simp: cursor_inv_def)
qed

lemma push_children_inv:
  assumes "cursor_inv nodes s" "buffer_read nodes (currentNodeIdx s) = Inr node"
    "\<not> triangleCount node > 0"
  shows "push_children dn node s = Inl IndexOutOfBounds
     \<or> (\<exists>s'. push_children dn node s = Inr s' \<and> cursor_inv nodes s')"
proof -
  from assms obtain t ts where r: "cursor_rel nodes s t ts" by (auto simp: cursor_inv_def)
  then have b: "bvh_at nodes (currentNodeIdx s) t" by (simp add: cursor_rel_def)
  from assms(2) have n: "node = nodes ! unat (currentNodeIdx s)"
    by (auto simp: buffer_read_def split: if_splits)
  from bvh_at_shape[OF b] assms(3) n have "t \<noteq> Leaf" by simp
  then obtain l r' where "t = Interior l r'" by (cases t) auto
  with r have "cursor_rel nodes s (Interior l r') ts" by simp
  from push_children_rel[OF this n, of dn] show ?thesis unfolding cursor_inv_def by blast
qed

lemma cursor_inv_bound:
  assumes "cursor_inv nodes s"
  shows "unat (toVisitOffset s) \<le> 32 \<and> length (nodesToVisit s) = 32"
proof -
  from assms obtain t ts where "cursor_rel nodes s t ts" unfolding cursor_inv_def by blast
  then have "length (nodesToVisit s) = 32" "unat (toVisitOffset s) = length ts"
    "interior_depth t + length ts \<le> 32"
    unfolding cursor_rel_def by blast+
  then show ?thesis by simp
qed

lemma cursor_inv_cong:
  "toVisitOffset s' = toVisitOffset s \<Longrightarrow> currentNodeIdx s' = currentNodeIdx s
   \<Longrightarrow> nodesToVisit s' = nodesToVisit s
   \<Longrightarrow> cursor_inv nodes s' = cursor_inv nodes s"
  by (simp add: cursor_inv_def cursor_rel_def)

lemma bind_res_Inr_iff: "bind_res m f = Inr v \<longleftrightarrow> (\<exists>a. m = Inr a \<and> f a = Inr v)"
  by (cases m) (simp_all add: bind_res_def)

lemma pop_result_Inl:
  "bind_res (pop_node s) (\<lambda>next. case next of None \<Rightarrow> Inr (Inr r) | Some s' \<Rightarrow> Inr (Inl s'))
     = Inr (Inl s') \<longleftrightarrow> pop_node s = Inr (Some s')"
  by (cases "pop_node s") (auto simp: bind_res_def split: option.splits)

lemma rayIntersectBvh_step_InrD:
  "rayIntersectBvh_step boxT triT dn nodes s = Inr r \<Longrightarrow>
     \<exists>node inside. buffer_read nodes (currentNodeIdx s) = Inr node
        \<and> boxT (aabb node) (st_tmax s) = Inr inside"
  unfolding rayIntersectBvh_step_def
  by (cases "buffer_read nodes (currentNodeIdx s)";
      cases "boxT (aabb (projr (buffer_read nodes (currentNodeIdx s)))) (st_tmax s)")
     (simp_all add: bind_res_def)

lemma rayIntersectBvh_step_miss:
  "buffer_read nodes (currentNodeIdx s) = Inr node \<Longrightarrow> boxT (aabb node) (st_tmax s) = Inr False
   \<Longrightarrow> rayIntersectBvh_step boxT triT dn nodes s
       = bind_res (pop_node s) (\<lambda>next.
           case next of None \<Rightarrow> Inr (Inr (st_didIntersect s, st_hit s))
           | Some s' \<Rightarrow> Inr (Inl s'))"
  by (simp add: rayIntersectBvh_step_def bind_res_def)

lemma rayIntersectBvh_step_leaf:
  "buffer_read nodes (currentNodeIdx s) = Inr node \<Longrightarrow> boxT (aabb node) (st_tmax s) = Inr True
   \<Longrightarrow> triangleCount node > 0
   \<Longrightarrow> rayIntersectBvh_step boxT triT dn nodes s
       = bind_res (closest_triangles triT node 0 s) (\<lambda>s1.
           bind_res (pop_node s1) (\<lambda>next.
             case next of None \<Rightarrow> Inr (Inr (st_didIntersect s1, st_hit s1))
             | Some s' \<Rightarrow> Inr (Inl s')))"
  by (simp add: rayIntersectBvh_step_def bind_res_def)

lemma rayIntersectBvh_step_interior:
  "buffer_read nodes (currentNodeIdx s) = Inr node \<Longrightarrow> boxT (aabb node) (st_tmax s) = Inr True
   \<Longrightarrow> \<not> triangleCount node > 0
   \<Longrightarrow> rayIntersectBvh_step boxT triT dn nodes s
       = bind_res (push_children dn node s) (\<lambda>s'. Inr (Inl s'))"
  by (simp add: rayIntersectBvh_step_def bind_res_def)

lemma rayIntersectBvh_step_inv:
  assumes i: "cursor_inv nodes s" and st: "rayIntersectBvh_step boxT triT dn nodes s = Inr (Inl s')"
  shows "cursor_inv nodes s'"
proof -
  from rayIntersectBvh_step_InrD[OF st] obtain node inside
    where n: "buffer_read nodes (currentNodeIdx s) = Inr node"
      and b: "boxT (aabb node) (st_tmax s) = Inr inside" by blast
  show ?thesis
  proof (cases inside)
    case False
    with st rayIntersectBvh_step_miss[OF n, of boxT triT dn] b
    have "pop_node s = Inr (Some s')" by (simp add: pop_result_Inl)
    with pop_node_inv[OF i] show ?thesis by auto
  next
    case True
    show ?thesis
    proof (cases "triangleCount node > 0")
      case False
      with st rayIntersectBvh_step_interior[OF n, of boxT triT dn] b True
      have "push_children dn node s = Inr s'"
        by (auto simp: bind_res_Inr_iff)
      with push_children_inv[OF i n False, of dn] show ?thesis by auto
    next
      case c: True
      with st rayIntersectBvh_step_leaf[OF n, of boxT triT dn] b True
      obtain s1 where s1: "closest_triangles triT node 0 s = Inr s1"
        and p: "pop_node s1 = Inr (Some s')"
        by (auto simp: bind_res_Inr_iff[of "closest_triangles triT node 0 s"] pop_result_Inl)
      from closest_triangles_cursor[OF s1] have "cursor_inv nodes s1 = cursor_inv nodes s"
        by (intro cursor_inv_cong) simp_all
      with i have "cursor_inv nodes s1" by simp
      from pop_node_inv[OF this] p show ?thesis by auto
    qed
  qed
qed

lemma shadowRay_step_InrD:
  "shadowRay_step boxT occT dn nodes s = Inr r \<Longrightarrow>
     \<exists>node inside. buffer_read nodes (currentNodeIdx s) = Inr node
        \<and> boxT (aabb node) = Inr inside"
  unfolding shadowRay_step_def
  by (cases "buffer_read nodes (currentNodeIdx s)";
      cases "boxT (aabb (projr (buffer_read nodes (currentNodeIdx s))))")
     (simp_all add: bind_res_def)

lemma shadowRay_step_miss:
  "buffer_read nodes (currentNodeIdx s) = Inr node \<Longrightarrow> boxT (aabb node) = Inr False
   \<Longrightarrow> shadowRay_step boxT occT dn nodes s
       = bind_res (pop_node s) (\<lambda>next.
           case next of None \<Rightarrow> Inr (Inr 1) | Some s' \<Rightarrow> Inr (Inl s'))"
  by (simp add: shadowRay_step_def bind_res_def)

lemma shadowRay_step_leaf:
  "buffer_read nodes (currentNodeIdx s) = Inr node \<Longrightarrow> boxT (aabb node) = Inr True
   \<Longrightarrow> triangleCount node > 0
   \<Longrightarrow> shadowRay_step boxT occT dn nodes s
       = bind_res (shadow_triangles occT node 0) (\<lambda>occluded.
             if occluded then Inr (Inr 0)
             else
               bind_res (pop_node s) (\<lambda>next.
                 case next of None \<Rightarrow> Inr (Inr 1) | Some s' \<Rightarrow> Inr (Inl s')))"
  by (simp add: shadowRay_step_def bind_res_def)

lemma shadowRay_step_interior:
  "buffer_read nodes (currentNodeIdx s) = Inr node \<Longrightarrow> boxT (aabb node) = Inr True
   \<Longrightarrow> \<not> triangleCount node > 0
   \<Longrightarrow> shadowRay_step boxT occT dn nodes s
       = bind_res (push_children dn node s) (\<lambda>s'. Inr (Inl s'))"
  by (simp add: shadowRay_step_def bind_res_def)

lemma shadowRay_step_inv:
  assumes i: "cursor_inv nodes s" and st: "shadowRay_step boxT occT dn nodes s = Inr (Inl s')"
  shows "cursor_inv nodes s'"
proof -
  from shadowRay_step_InrD[OF st] obtain node inside
    where n: "buffer_read nodes (currentNodeIdx s) = Inr node"
      and b: "boxT (aabb node) = Inr inside" by blast
  show ?thesis
  proof (cases inside)
    case False
    with st shadowRay_step_miss[OF n, of boxT occT dn] b
    have "pop_node s = Inr (Some s')" by (simp add: pop_result_Inl)
    with pop_node_inv[OF i] show ?thesis by auto
  next
    case True
    show ?thesis
    proof (cases "triangleCount node > 0")
      case False
      with st shadowRay_step_interior[OF n, of boxT occT dn] b True
      have "push_children dn node s = Inr s'"
        by (auto simp: bind_res_Inr_iff)
      with push_children_inv[OF i n False, of dn] show ?thesis by auto
    next
      case c: True
      with st shadowRay_step_leaf[OF n, of boxT occT dn] b True
      have "pop_node s = Inr (Some s')"
        by (auto simp: bind_res_Inr_iff[of "shadow_triangles occT node 0"] pop_result_Inl
            split: if_splits)
      with pop_node_inv[OF i] show ?thesis by auto
    qed
  qed
qed

lemma reachable_inv:
  assumes "reachable step s0 s" and "I s0" and "\<And>a b. I a \<Longrightarrow> step a = Inr (Inl b) \<Longrightarrow> I b"
  shows "I s"
  using assms by (induction rule: reachable.induct) auto

lemma cursor_inv_init:
  assumes "bvh_at nodes 0 t" "interior_depth t \<le> 32"
    "toVisitOffset s = 0" "currentNodeIdx s = 0" "nodesToVisit s = replicate 32 0"
  shows "cursor_inv nodes s"
  using assms unfolding cursor_inv_def cursor_rel_def
  by (intro exI[of _ t] exI[of _ "[]"]) simp

lemma stack_access_ok:
  assumes "cursor_inv nodes s"
  shows "pop_node s \<noteq> Inl StackIndexOutOfBounds"
    and "buffer_read nodes (currentNodeIdx s) = Inr node \<Longrightarrow> \<not> triangleCount node > 0
          \<Longrightarrow> push_children dn node s \<noteq> Inl StackIndexOutOfBounds"
  using pop_node_inv[OF assms] push_children_inv[OF assms, of node dn] by auto

lemma cursor_inv_stack_in_bounds:
  assumes "cursor_inv nodes s"
  shows "stack_in_bounds nodes s"
proof -
  from assms obtain t ts where r: "cursor_rel nodes s t ts" unfolding cursor_inv_def by blast
  then have l: "length (nodesToVisit s) = 32" and o: "unat (toVisitOffset s) = length ts"
    and b: "bvh_at nodes (currentNodeIdx s) t" and d: "interior_depth t + length ts \<le> 32"
    by (simp_all add: cursor_rel_def)
  have rd: "\<exists>i. stack_read (nodesToVisit s) (toVisitOffset s - 1) = Inr i"
    if nz: "toVisitOffset s \<noteq> 0"
  proof -
    have "unat (toVisitOffset s - 1) = length ts - 1" using unat_pred[OF nz] o by simp
    then show ?thesis using l d by (simp add: stack_read_def)
  qed
  have wr: "\<forall>v. \<exists>arr. stack_write (nodesToVisit s) (toVisitOffset s) v = Inr arr"
    if nl: "\<not> triangleCount (nodes ! unat (currentNodeIdx s)) > 0"
  proof -
    from bvh_at_shape[OF b] nl have "t \<noteq> Leaf" by simp
    then have "0 < interior_depth t" by (cases t) simp_all
    with d o l show ?thesis by (simp add: stack_write_def)
  qed
  from l o d rd wr show ?thesis unfolding stack_in_bounds_def by simp
qed

text \<open>
  C7.  When the node array holds a tree whose interior-node depth is at most 32, every state
  that the closest-hit loop or the any-hit loop passes through, started as \<^verbatim>\<open>rayIntersectBvh\<close>
  and \<^verbatim>\<open>shadowRay\<close> start them, has \<^verbatim>\<open>toVisitOffset\<close> at most 32, and the read of
  \<^verbatim>\<open>nodesToVisit\<close> after the decrement and the write at an interior node are inside the
  array of 32 elements.  This holds for every box test, triangle test and direction signs.
\<close>

theorem traversal_stack_in_bounds:
  assumes "bvh_at nodes 0 t" and "interior_depth t \<le> 32"
  shows "(\<forall>s. reachable (rayIntersectBvh_step boxT triT dn nodes)
             \<lparr> toVisitOffset = 0, currentNodeIdx = 0, nodesToVisit = replicate 32 0,
               st_didIntersect = False, st_tmax = rayTMax, st_hit = hit \<rparr> s
           \<longrightarrow> stack_in_bounds nodes s)
       \<and> (\<forall>c. reachable (shadowRay_step boxS occT dn nodes)
             \<lparr> toVisitOffset = 0, currentNodeIdx = 0, nodesToVisit = replicate 32 0 \<rparr> c
           \<longrightarrow> stack_in_bounds nodes c)"
proof (intro conjI allI impI)
  fix s :: "'a closest_state"
  assume r: "reachable (rayIntersectBvh_step boxT triT dn nodes)
             \<lparr> toVisitOffset = 0, currentNodeIdx = 0, nodesToVisit = replicate 32 0,
               st_didIntersect = False, st_tmax = rayTMax, st_hit = hit \<rparr> s"
  have "cursor_inv nodes s"
  proof (rule reachable_inv[OF r])
    show "cursor_inv nodes \<lparr> toVisitOffset = 0, currentNodeIdx = 0, nodesToVisit = replicate 32 0,
               st_didIntersect = False, st_tmax = rayTMax, st_hit = hit \<rparr>"
      by (rule cursor_inv_init[OF assms]) simp_all
  next
    fix a b :: "'a closest_state"
    assume "cursor_inv nodes a" "rayIntersectBvh_step boxT triT dn nodes a = Inr (Inl b)"
    then show "cursor_inv nodes b" by (rule rayIntersectBvh_step_inv)
  qed
  then show "stack_in_bounds nodes s" by (rule cursor_inv_stack_in_bounds)
next
  fix c :: cursor
  assume r: "reachable (shadowRay_step boxS occT dn nodes)
             \<lparr> toVisitOffset = 0, currentNodeIdx = 0, nodesToVisit = replicate 32 0 \<rparr> c"
  have "cursor_inv nodes c"
  proof (rule reachable_inv[OF r])
    show "cursor_inv nodes \<lparr> toVisitOffset = 0, currentNodeIdx = 0, nodesToVisit = replicate 32 0 \<rparr>"
      by (rule cursor_inv_init[OF assms]) simp_all
  next
    fix a b :: cursor
    assume "cursor_inv nodes a" "shadowRay_step boxS occT dn nodes a = Inr (Inl b)"
    then show "cursor_inv nodes b" by (rule shadowRay_step_inv)
  qed
  then show "stack_in_bounds nodes c" by (rule cursor_inv_stack_in_bounds)
qed

lemma example_nodes_shape: "bvh_at example_nodes 0 (Interior Leaf Leaf)"
  by (intro bvh_interior bvh_leaf) (simp_all add: example_nodes_def)


lemma example_closest_step0:
  "rayIntersectBvh_step (rayIntersectAabb example_intersector) triT (Vec3u 0 0 0) example_nodes
     \<lparr> toVisitOffset = 0, currentNodeIdx = 0, nodesToVisit = replicate 32 0,
       st_didIntersect = False, st_tmax = T_MAX, st_hit = example_hit \<rparr>
   = Inr (Inl \<lparr> toVisitOffset = 1, currentNodeIdx = 1, nodesToVisit = (replicate 32 0)[0 := 2],
       st_didIntersect = False, st_tmax = T_MAX, st_hit = example_hit \<rparr>)"
  by (simp add: rayIntersectBvh_step_def buffer_read_def example_nodes_def bind_res_def
      rayIntersectAabb_def example_intersector_def bounds_index_def T_MAX_def Let_def
      push_children_def vec3u_index_def stack_write_def)

lemma example_shadow_step0:
  "shadowRay_step (\<lambda>box. rayIntersectAabb example_intersector box T_MAX) occT (Vec3u 0 0 0)
     example_nodes \<lparr> toVisitOffset = 0, currentNodeIdx = 0, nodesToVisit = replicate 32 0 \<rparr>
   = Inr (Inl \<lparr> toVisitOffset = 1, currentNodeIdx = 1, nodesToVisit = (replicate 32 0)[0 := 2] \<rparr>)"
  by (simp add: shadowRay_step_def buffer_read_def example_nodes_def bind_res_def
      rayIntersectAabb_def example_intersector_def bounds_index_def T_MAX_def Let_def
      push_children_def vec3u_index_def stack_write_def)

text \<open>
  The scene of two triangles: the state after the first iteration of either loop has one
  entry on the stack.
\<close>

theorem traversal_stack_in_bounds_witness:
  "bvh_at example_nodes 0 (Interior Leaf Leaf) \<and> interior_depth (Interior Leaf Leaf) \<le> 32
   \<and> reachable (rayIntersectBvh_step (rayIntersectAabb example_intersector)
         (closest_triangle example_nudge example_scene example_ray) (Vec3u 0 0 0) example_nodes)
       \<lparr> toVisitOffset = 0, currentNodeIdx = 0, nodesToVisit = replicate 32 0,
         st_didIntersect = False, st_tmax = T_MAX, st_hit = example_hit \<rparr>
       \<lparr> toVisitOffset = 1, currentNodeIdx = 1, nodesToVisit = (replicate 32 0)[0 := 2],
         st_didIntersect = False, st_tmax = T_MAX, st_hit = example_hit \<rparr>
   \<and> stack_in_bounds example_nodes
       \<lparr> toVisitOffset = 1, currentNodeIdx = 1, nodesToVisit = (replicate 32 0)[0 := 2],
         st_didIntersect = False, st_tmax = T_MAX, st_hit = example_hit \<rparr>
   \<and> reachable (shadowRay_step (\<lambda>box. rayIntersectAabb example_intersector box T_MAX)
         (shadow_triangle example_nudge example_scene example_ray T_MAX) (Vec3u 0 0 0) example_nodes)
       \<lparr> toVisitOffset = 0, currentNodeIdx = 0, nodesToVisit = replicate 32 0 \<rparr>
       \<lparr> toVisitOffset = 1, currentNodeIdx = 1, nodesToVisit = (replicate 32 0)[0 := 2] \<rparr>
   \<and> stack_in_bounds example_nodes
       \<lparr> toVisitOffset = 1, currentNodeIdx = 1, nodesToVisit = (replicate 32 0)[0 := 2] \<rparr>
   \<and> stack_read ((replicate 32 0)[0 := 2]) (1 - 1) = Inr 2"
proof -
  have d: "interior_depth (Interior Leaf Leaf) \<le> 32" by simp
  have r1: "reachable (rayIntersectBvh_step (rayIntersectAabb example_intersector)
         (closest_triangle example_nudge example_scene example_ray) (Vec3u 0 0 0) example_nodes)
       \<lparr> toVisitOffset = 0, currentNodeIdx = 0, nodesToVisit = replicate 32 0,
         st_didIntersect = False, st_tmax = T_MAX, st_hit = example_hit \<rparr>
       \<lparr> toVisitOffset = 1, currentNodeIdx = 1, nodesToVisit = (replicate 32 0)[0 := 2],
         st_didIntersect = False, st_tmax = T_MAX, st_hit = example_hit \<rparr>"
    by (rule reachable_step[OF reachable_init]) (rule example_closest_step0)
  have r2: "reachable (shadowRay_step (\<lambda>box. rayIntersectAabb example_intersector box T_MAX)
         (shadow_triangle example_nudge example_scene example_ray T_MAX) (Vec3u 0 0 0) example_nodes)
       \<lparr> toVisitOffset = 0, currentNodeIdx = 0, nodesToVisit = replicate 32 0 \<rparr>
       \<lparr> toVisitOffset = 1, currentNodeIdx = 1, nodesToVisit = (replicate 32 0)[0 := 2] \<rparr>"
    by (rule reachable_step[OF reachable_init]) (rule example_shadow_step0)
  note t = traversal_stack_in_bounds[OF example_nodes_shape d]
  from t[THEN conjunct1, rule_format, OF r1] t[THEN conjunct2, rule_format, OF r2]
    example_nodes_shape d r1 r2
  show ?thesis by (simp add: stack_read_def)
qed

section \<open>The two queries in lock step\<close>




















section \<open>The closest-hit traversal\<close>
















section \<open>Boxes, triangles and the closest hit\<close>





















lemma u32_below_1: "{j::u32. unat j < Suc 0} = {0}"
  by (auto simp: unat_eq_zero)






section \<open>Escaping paths\<close>










end
